theory Spec2Isabelle
  imports Complex_Main "HOL-Library.Sublist" "HOL-Library.Log_Nat"
begin

section \<open>Python values and exceptions\<close>

text \<open>
  Every exception the modelled code can raise is a value; a function that can raise
  returns \<open>error + 'a\<close> with \<open>Inl\<close> for the exception. \<open>ExternalError\<close> stands for
  a failure raised inside an external library (network, archive, HDF5);
  \<open>Timeout\<close> is \<open>filelock.Timeout\<close>.
\<close>

datatype error =
    ValueError string
  | RuntimeError string
  | KeyError string
  | IndexError
  | NameError string
  | AttributeError string
  | FileNotFoundError string
  | Timeout
  | ExternalError string

text \<open>Python truthiness of an integer (\<open>bool\<close> is a subclass of \<open>int\<close>).\<close>

definition truthy :: "int \<Rightarrow> bool" where
  "truthy v = (v \<noteq> 0)"

subsection \<open>\<open>bisect.bisect_right\<close> (standard library)\<close>

text \<open>
  \<^verbatim>\<open>
  def bisect_right(a, x, lo=0, hi=None):
      if hi is None: hi = len(a)
      while lo < hi:
          mid = (lo + hi) // 2
          if x < a[mid]: hi = mid
          else: lo = mid + 1
      return lo
  \<close>
\<close>

function bisect_right_loop :: "int list \<Rightarrow> int \<Rightarrow> nat \<Rightarrow> nat \<Rightarrow> nat" where
  "bisect_right_loop a x lo hi =
     (if lo < hi then
        (let mid = (lo + hi) div 2 in
         if x < a ! mid then bisect_right_loop a x lo mid
         else bisect_right_loop a x (mid + 1) hi)
      else lo)"
  by pat_completeness auto
termination
  by (relation "measure (\<lambda>(a, x, lo, hi). hi - lo)") auto

declare bisect_right_loop.simps [simp del]

definition bisect_right :: "int list \<Rightarrow> int \<Rightarrow> nat" where
  "bisect_right a x = bisect_right_loop a x 0 (length a)"

section \<open>Python floats\<close>

text \<open>
  A Python \<open>float\<close> is an IEEE 754 double. A finite double is given here by its exact
  value, a rational number, and every arithmetic operation rounds its exact result to
  the nearest double, ties to the even significand: 53 significant bits, quantum
  \<open>2 ^ (e - 52)\<close> for a value in \<open>[2 ^ e, 2 ^ (e + 1))\<close>, and \<open>2 ^ (- 1074)\<close> in the
  subnormal range. Infinities and NaN are not modelled, nor is overflow: a result of
  magnitude \<open>2 ^ 1024\<close> or more is rounded like any other. The values computed by the
  code below stay far within the range: a rate is a base rate times a power of
  \<open>gamma = 0.1\<close>, and a container length is at most \<open>2 ^ 63 - 1\<close>.
\<close>

text \<open>\<open>ilog2 x\<close> is the exponent \<open>e\<close> with \<open>2 ^ e \<le> x < 2 ^ (e + 1)\<close>, for positive \<open>x\<close>.\<close>

definition ilog2 :: "rat \<Rightarrow> int" where
  "ilog2 x =
     (let (p, q) = quotient_of x;
          e0 = bitlen p - bitlen q
      in if 2 powi e0 \<le> x then e0 else e0 - 1)"

text \<open>Rounding to the nearest integer, ties to even.\<close>

definition rne :: "rat \<Rightarrow> int" where
  "rne y =
     (let f = \<lfloor>y\<rfloor>; r = y - of_int f
      in if r < 1 / 2 then f
         else if 1 / 2 < r then f + 1
         else if even f then f else f + 1)"

definition quantum :: "rat \<Rightarrow> rat" where
  "quantum x = 2 powi (max (ilog2 \<bar>x\<bar>) (- 1022) - 52)"

definition round_double :: "rat \<Rightarrow> rat" where
  "round_double x =
     (if x = 0 then 0 else sgn x * (of_int (rne (\<bar>x\<bar> / quantum x)) * quantum x))"

text \<open>
  A decimal literal such as \<open>0.1\<close> denotes \<open>round_double (1 / 10)\<close>. Product and
  difference of two floats, and a float raised to a non-negative integer
  (\<open>x ** k\<close>, taken as the correctly rounded power; it is exact for the exponents 0
  and 1).
\<close>

definition fmul :: "rat \<Rightarrow> rat \<Rightarrow> rat" where
  "fmul a b = round_double (a * b)"

definition fsub :: "rat \<Rightarrow> rat \<Rightarrow> rat" where
  "fsub a b = round_double (a - b)"

definition fpow :: "rat \<Rightarrow> nat \<Rightarrow> rat" where
  "fpow x k = round_double (x ^ k)"

section \<open>Learning-rate schedule (\<open>src/repro/train.py\<close>, class \<open>MultiStepLR\<close>)\<close>

text \<open>
  The scheduler object. \<open>optimizer_lrs\<close> are the \<open>lr\<close> entries of the parameter
  groups of the optimizer the scheduler holds; learning rates and \<open>gamma\<close> are floats
  (finite doubles, given by their exact values).
  \<open>div_first_epoch\<close> is kept as the Python value it is given (an integer, used for
  its truthiness).
\<close>

record scheduler =
  div_first_epoch :: int
  milestones :: "int list"
  gamma :: rat
  base_lrs :: "rat list"
  last_epoch :: int
  optimizer_lrs :: "rat list"

text \<open>
  \<^verbatim>\<open>
  def get_lr(self):
      if self.last_epoch < 1 and self.div_first_epoch:
          return [base_lr * self.gamma for base_lr in self.base_lrs]
      return [base_lr * self.gamma ** bisect_right(self.milestones, self.last_epoch)
              for base_lr in self.base_lrs]
  \<close>
\<close>

definition get_lr :: "scheduler \<Rightarrow> rat list" where
  "get_lr s =
     (if last_epoch s < 1 \<and> truthy (div_first_epoch s)
      then map (\<lambda>base_lr. fmul base_lr (gamma s)) (base_lrs s)
      else map (\<lambda>base_lr.
                  fmul base_lr (fpow (gamma s) (bisect_right (milestones s) (last_epoch s))))
             (base_lrs s))"

text \<open>
  The base class of the external library, \<open>torch.optim.lr_scheduler\<close>:
  \<open>step\<close> moves to the given epoch (the next one by default) and writes
  \<open>get_lr()\<close> into the optimizer's parameter groups, pairwise (\<open>zip\<close>).
\<close>

definition assign_lrs :: "rat list \<Rightarrow> rat list \<Rightarrow> rat list" where
  "assign_lrs groups lrs = take (length groups) lrs @ drop (length lrs) groups"

definition step :: "int option \<Rightarrow> scheduler \<Rightarrow> scheduler" where
  "step epoch s =
     (let e = (case epoch of None \<Rightarrow> last_epoch s + 1 | Some e \<Rightarrow> e);
          s' = s\<lparr>last_epoch := e\<rparr>
      in s'\<lparr>optimizer_lrs := assign_lrs (optimizer_lrs s') (get_lr s')\<rparr>)"

text \<open>
  The base-class constructor \<open>torch.optim.lr_scheduler.MultiStepLR.__init__\<close>
  (external library): it refuses milestones that are not in increasing order, stores
  milestones and gamma, takes the optimizer's rates as base rates, performs
  \<open>step(last_epoch + 1)\<close> and then stores \<open>last_epoch\<close>. The first argument is the
  attribute the subclass has set on the object before the call.
\<close>

definition torch_MultiStepLR_init ::
  "int \<Rightarrow> rat list \<Rightarrow> int list \<Rightarrow> rat \<Rightarrow> int \<Rightarrow> error + scheduler" where
  "torch_MultiStepLR_init dfe optimizer ms g le =
     (if ms \<noteq> sort ms
      then Inl (ValueError ''Milestones should be a list of increasing integers.'')
      else
        (let s0 = \<lparr>div_first_epoch = dfe, milestones = ms, gamma = g,
                   base_lrs = optimizer, last_epoch = le, optimizer_lrs = optimizer\<rparr>
         in Inr ((step (Some (le + 1)) s0)\<lparr>last_epoch := le\<rparr>)))"

text \<open>
  \<^verbatim>\<open>
  def __init__(self, optimizer, milestones, gamma=0.1, div_first_epoch=False, last_epoch=-1):
      self.div_first_epoch = div_first_epoch
      super(MultiStepLR, self).__init__(optimizer, milestones, gamma=0.1, last_epoch=-1)
  \<close>
\<close>

definition MultiStepLR_init ::
  "rat list \<Rightarrow> int list \<Rightarrow> rat \<Rightarrow> int \<Rightarrow> int \<Rightarrow> error + scheduler" where
  "MultiStepLR_init optimizer ms gamma_arg dfe last_epoch_arg =
     torch_MultiStepLR_init dfe optimizer ms (round_double (1 / 10)) (- 1)"

section \<open>Process-wide state of the numerical library\<close>

text \<open>
  \<open>rng_state\<close> stands for the joint state of the random generators (\<open>random\<close>,
  \<open>numpy.random\<close>, \<open>torch\<close>, \<open>torch.cuda\<close>) from which sampling orders are drawn.
\<close>

record torch_world =
  cuda_available :: bool
  cudnn_benchmark :: bool
  cudnn_deterministic :: bool
  rng_state :: nat

text \<open>
  \<^verbatim>\<open>
  def seed(seed):
      if torch.cuda.is_available():
          torch.backends.cudnn.benchmark = True
          torch.backends.cudnn.deterministic = False
      # random.seed(seed)
      # numpy.random.seed(seed)
      # torch.manual_seed(seed)
      # torch.cuda.manual_seed_all(seed)
  \<close>
\<close>

definition seed :: "int \<Rightarrow> torch_world \<Rightarrow> torch_world" where
  "seed sd w =
     (if cuda_available w
      then w\<lparr>cudnn_benchmark := True, cudnn_deterministic := False\<rparr>
      else w)"

section \<open>Building the experiment (\<open>src/repro/train.py\<close>, \<open>build_experiment\<close>)\<close>

text \<open>
  The part of the configuration \<open>build_experiment\<close> reads itself. The scheduler
  configuration is a dictionary from keys to lists of integers. The dataset, model and
  optimizer builders live in modules outside \<open>src/\<close>; the optimizer they produce is a
  parameter (the learning rates of its parameter groups).
\<close>

type_synonym lr_scheduler_config = "(string \<times> int list) list"

record config =
  model_seed :: "int option"
  sampler_seed :: "int option"
  lr_scheduler :: "lr_scheduler_config option"

record built_experiment =
  exp_optimizer :: "rat list"
  exp_lr_scheduler :: "scheduler option"
  exp_seeds_model :: int
  exp_seeds_sampler :: int

text \<open>
  \<^verbatim>\<open>
  if lr_scheduler_config:
      milestones = lr_scheduler_config['milestones']
      div_first_epoch = milestones[0]
      milestones = milestones[1:]
      lr_scheduler = MultiStepLR(
          optimizer, milestones, gamma=0.1, div_first_epoch=div_first_epoch, last_epoch=-1)
  else:
      lr_scheduler = None
  \<close>
\<close>

definition build_lr_scheduler ::
  "rat list \<Rightarrow> lr_scheduler_config option \<Rightarrow> error + scheduler option" where
  "build_lr_scheduler optimizer lr_scheduler_config =
     (case lr_scheduler_config of
        None \<Rightarrow> Inr None
      | Some d \<Rightarrow>
          if d = [] then Inr None
          else
            (case map_of d ''milestones'' of
               None \<Rightarrow> Inl (KeyError ''milestones'')
             | Some [] \<Rightarrow> Inl IndexError
             | Some (first # remaining) \<Rightarrow>
                 (case MultiStepLR_init optimizer remaining (round_double (1 / 10)) first (- 1) of
                    Inl e \<Rightarrow> Inl e
                  | Inr s \<Rightarrow> Inr (Some s))))"

definition build_experiment ::
  "rat list \<Rightarrow> config \<Rightarrow> torch_world \<Rightarrow> error + built_experiment \<times> torch_world" where
  "build_experiment optimizer config w =
     (case model_seed config of
        None \<Rightarrow> Inl (ValueError ''model_seed must be defined'')
      | Some m \<Rightarrow>
          (case sampler_seed config of
             None \<Rightarrow> Inl (ValueError ''sampler_seed must be defined'')
           | Some sm \<Rightarrow>
               if \<not> cuda_available w then Inl (RuntimeError ''GPU not available'')
               else
                 (let w1 = seed sm w;
                      w2 = seed m w1
                  in case build_lr_scheduler optimizer (lr_scheduler config) of
                       Inl e \<Rightarrow> Inl e
                     | Inr sch \<Rightarrow>
                         Inr (\<lparr>exp_optimizer = optimizer, exp_lr_scheduler = sch,
                               exp_seeds_model = m, exp_seeds_sampler = sm\<rparr>, w2))))"

section \<open>More of Python: values, paths, \<open>str.format\<close>\<close>

text \<open>
  The few Python values whose kind matters here: \<open>None\<close>, a string, and any other
  object (named for reference only).
\<close>

datatype pyval = PyNone | PyStr string | PyObj string

text \<open>\<open>os.path.join\<close> of two components (POSIX).\<close>

definition os_path_join :: "string \<Rightarrow> string \<Rightarrow> string" where
  "os_path_join a b =
     (if b \<noteq> [] \<and> hd b = CHR ''/'' then b
      else if a = [] \<or> last a = CHR ''/'' then a @ b
      else a @ ''/'' @ b)"

text \<open>Decimal rendering of a natural number, as \<open>str\<close> gives it.\<close>

definition digit_char :: "nat \<Rightarrow> char" where
  "digit_char d = char_of (d + 48)"

fun str_of_nat :: "nat \<Rightarrow> string" where
  "str_of_nat n =
     (if n < 10 then [digit_char n] else str_of_nat (n div 10) @ [digit_char (n mod 10)])"

declare str_of_nat.simps [simp del]

text \<open>
  \<open>template.format(*args, **kwargs)\<close> for templates whose fields are \<open>{}\<close>
  (automatic numbering) or \<open>{name}\<close>, the only forms the code uses: fields are
  replaced from left to right; a name that is not among the keyword arguments raises
  \<open>KeyError\<close>, a missing positional argument \<open>IndexError\<close>, an unmatched brace
  \<open>ValueError\<close>. Keyword arguments no field names are ignored. Brace escapes,
  conversions and format specifications are not modelled.
\<close>

function py_format_from ::
  "nat \<Rightarrow> string \<Rightarrow> string list \<Rightarrow> (string \<times> string) list \<Rightarrow> error + string" where
  "py_format_from k [] args kwargs = Inr []"
| "py_format_from k (c # cs) args kwargs =
     (if c = CHR ''{'' then
        (if CHR ''}'' \<notin> set cs then Inl (ValueError ''expected } before end of string'')
         else
           (let name = takeWhile (\<lambda>d. d \<noteq> CHR ''}'') cs;
                rest = drop 1 (dropWhile (\<lambda>d. d \<noteq> CHR ''}'') cs)
            in if name = [] then
                 (if k < length args
                  then map_sum id ((@) (args ! k)) (py_format_from (k + 1) rest args kwargs)
                  else Inl IndexError)
               else
                 (case map_of kwargs name of
                    None \<Rightarrow> Inl (KeyError name)
                  | Some v \<Rightarrow> map_sum id ((@) v) (py_format_from k rest args kwargs))))
      else if c = CHR ''}'' then Inl (ValueError ''Single } encountered in format string'')
      else map_sum id ((#) c) (py_format_from k cs args kwargs))"
  by pat_completeness auto
termination
proof (relation "measure (\<lambda>(k, s, args, kwargs). length s)")
  show "wf (measure (\<lambda>(k, s, args, kwargs). length s))" by simp
next
  fix k :: nat and c :: char and cs :: string and args :: "string list"
    and kwargs :: "(string \<times> string) list" and name rest :: string
  assume "rest = drop 1 (dropWhile (\<lambda>d. d \<noteq> CHR ''}'') cs)"
  then have "length rest \<le> length cs"
    using length_dropWhile_le [of "\<lambda>d. d \<noteq> CHR ''}''" cs] by simp
  then show "((k + 1, rest, args, kwargs), (k, c # cs, args, kwargs))
      \<in> measure (\<lambda>(k, s, args, kwargs). length s)" by simp
next
  fix k :: nat and c :: char and cs :: string and args :: "string list"
    and kwargs :: "(string \<times> string) list" and name rest :: string
  assume "rest = drop 1 (dropWhile (\<lambda>d. d \<noteq> CHR ''}'') cs)"
  then have "length rest \<le> length cs"
    using length_dropWhile_le [of "\<lambda>d. d \<noteq> CHR ''}''" cs] by simp
  then show "((k, rest, args, kwargs), (k, c # cs, args, kwargs))
      \<in> measure (\<lambda>(k, s, args, kwargs). length s)" by simp
next
  fix k :: nat and c :: char and cs :: string and args :: "string list"
    and kwargs :: "(string \<times> string) list"
  show "((k, cs, args, kwargs), (k, c # cs, args, kwargs))
      \<in> measure (\<lambda>(k, s, args, kwargs). length s)" by simp
qed

definition py_format :: "string \<Rightarrow> string list \<Rightarrow> (string \<times> string) list \<Rightarrow> error + string" where
  "py_format template args kwargs = py_format_from 0 template args kwargs"

text \<open>
  Calling the method \<open>format\<close> on a value: only a string has it; on \<open>None\<close> the
  attribute lookup raises \<open>AttributeError\<close> before any argument is used.
\<close>

definition call_format :: "pyval \<Rightarrow> string list \<Rightarrow> (string \<times> string) list \<Rightarrow> error + string" where
  "call_format v args kwargs =
     (case v of
        PyStr template \<Rightarrow> py_format template args kwargs
      | PyNone \<Rightarrow> Inl (AttributeError ''NoneType object has no attribute format'')
      | PyObj _ \<Rightarrow> Inl (AttributeError ''object has no attribute format''))"

text \<open>
  Reading a global name in a module whose bindings are \<open>globals\<close>: an unbound name
  raises \<open>NameError\<close>.
\<close>

definition load_global :: "(string \<times> pyval) list \<Rightarrow> string \<Rightarrow> error + pyval" where
  "load_global globals name =
     (case map_of globals name of None \<Rightarrow> Inl (NameError name) | Some v \<Rightarrow> Inr v)"

section \<open>Dataset preparer and loader (\<open>src/repro/dataset/tinyimagenet.py\<close>)\<close>

definition DIRNAME :: string where
  "DIRNAME = ''tiny-imagenet-200''"

definition ZIP_FILENAME :: string where
  "ZIP_FILENAME = ''tiny-imagenet-200.zip''"

definition TRAIN_FILENAME :: string where
  "TRAIN_FILENAME = ''tinyimagenet_train.h5''"

definition VAL_FILENAME :: string where
  "VAL_FILENAME = ''tinyimagenet_val.h5''"

text \<open>
  The part of the world the preparer acts on: the paths that exist, the lines written by
  \<open>print\<close>, and a log of the I/O operations attempted (network transfer, archive
  extraction, container creation, tree removal). The lock file itself is not tracked.
\<close>

datatype io_event = Download string | Extract string | Write string | Delete string

record fs_world =
  files :: "string list"
  stdout :: "string list"
  io_log :: "io_event list"

text \<open>
  What the outside decides: whether the file lock is obtained within the timeout, and
  whether the network transfer, the extraction and the two image loaders fail.
\<close>

record outside =
  lock_acquired :: bool
  download_fails :: "error option"
  unzip_fails :: "error option"
  train_loader_fails :: "error option"
  val_loader_fails :: "error option"

definition os_path_exists :: "fs_world \<Rightarrow> string \<Rightarrow> bool" where
  "os_path_exists w p = (p \<in> set (files w))"

definition add_file :: "string \<Rightarrow> fs_world \<Rightarrow> fs_world" where
  "add_file p w = (if p \<in> set (files w) then w else w\<lparr>files := files w @ [p]\<rparr>)"

definition log_io :: "io_event \<Rightarrow> fs_world \<Rightarrow> fs_world" where
  "log_io ev w = w\<lparr>io_log := io_log w @ [ev]\<rparr>"

text \<open>\<open>print(s)\<close> writes the line and returns \<open>None\<close>.\<close>

definition py_print :: "string \<Rightarrow> fs_world \<Rightarrow> pyval \<times> fs_world" where
  "py_print s w = (PyNone, w\<lparr>stdout := stdout w @ [s]\<rparr>)"

definition get_zipfile_path :: "string \<Rightarrow> string" where
  "get_zipfile_path data_path = os_path_join data_path ZIP_FILENAME"

definition get_dirpath :: "string \<Rightarrow> string" where
  "get_dirpath data_path = os_path_join data_path DIRNAME"

text \<open>
  \<^verbatim>\<open>
  def all_hdf5_exists(data_path):
      return all(os.path.exists(os.path.join(data_path, filename))
                 for filename in [TRAIN_FILENAME, VAL_FILENAME])
  \<close>
\<close>

definition all_hdf5_exists :: "fs_world \<Rightarrow> string \<Rightarrow> bool" where
  "all_hdf5_exists w data_path =
     list_all (\<lambda>filename. os_path_exists w (os_path_join data_path filename))
       [TRAIN_FILENAME, VAL_FILENAME]"

text \<open>
  \<open>download\<close>: nothing to do when the archive is there; otherwise the transfer is
  attempted and, unless it fails, the archive exists afterwards. The printed size
  figure is left out of the line.
\<close>

definition download :: "outside \<Rightarrow> string \<Rightarrow> fs_world \<Rightarrow> error option \<times> fs_world" where
  "download out data_path w =
     (if os_path_exists w (get_zipfile_path data_path)
      then (None, snd (py_print ''Zip file already downloaded'' w))
      else
        (let w1 = log_io (Download (get_zipfile_path data_path)) w
         in case download_fails out of
              Some e \<Rightarrow> (Some e, w1)
            | None \<Rightarrow>
                (None, snd (py_print (''Downloading: '' @ get_zipfile_path data_path)
                              (add_file (get_zipfile_path data_path) w1)))))"

text \<open>
  \<open>unzip\<close>: the archive unpacks into the directory \<open>DIRNAME\<close> under the data path.
\<close>

definition unzip :: "outside \<Rightarrow> string \<Rightarrow> fs_world \<Rightarrow> error option \<times> fs_world" where
  "unzip out data_path w =
     (let w1 = snd (py_print ''Unzipping files...'' w)
      in if \<not> os_path_exists w1 (get_zipfile_path data_path)
         then (Some (FileNotFoundError (get_zipfile_path data_path)), w1)
         else
           (let w2 = log_io (Extract (get_zipfile_path data_path)) w1
            in case unzip_fails out of
                 Some e \<Rightarrow> (Some e, w2)
               | None \<Rightarrow> (None, snd (py_print ''Done'' (add_file (get_dirpath data_path) w2)))))"

text \<open>
  \<^verbatim>\<open>
  def clean(data_path):
      print("Deleting unzipped files...")
      shutil.rmtree(get_dirpath(data_path))
  \<close>
  \<open>shutil.rmtree\<close> raises when the directory does not exist; otherwise the directory
  and everything below it is gone.
\<close>

definition clean :: "string \<Rightarrow> fs_world \<Rightarrow> error option \<times> fs_world" where
  "clean data_path w =
     (let w1 = snd (py_print ''Deleting unzipped files...'' w);
          d = get_dirpath data_path
      in if \<not> os_path_exists w1 d then (Some (FileNotFoundError d), w1)
         else
           (None, log_io (Delete d)
                    (w1\<lparr>files := filter (\<lambda>p. p \<noteq> d \<and> \<not> prefix (d @ ''/'') p) (files w1)\<rparr>)))"

text \<open>
  \<open>create_hdf5_file\<close> creates (or truncates) the container, then fills it from the
  loader, which may fail; the file stays where it was created.
\<close>

definition create_hdf5_file :: "error option \<Rightarrow> string \<Rightarrow> fs_world \<Rightarrow> error option \<times> fs_world" where
  "create_hdf5_file loader_fails file_path w =
     (loader_fails, log_io (Write file_path) (add_file file_path w))"

definition create_hdf5 :: "outside \<Rightarrow> string \<Rightarrow> fs_world \<Rightarrow> error option \<times> fs_world" where
  "create_hdf5 out data_path w =
     (case create_hdf5_file (train_loader_fails out)
             (os_path_join data_path ''tinyimagenet_train.h5'') w of
        (Some e, w1) \<Rightarrow> (Some e, w1)
      | (None, w1) \<Rightarrow>
          create_hdf5_file (val_loader_fails out)
            (os_path_join data_path ''tinyimagenet_val.h5'') w1)"

text \<open>The body of the \<open>with FileLock(...)\<close> block.\<close>

definition locked_body :: "outside \<Rightarrow> string \<Rightarrow> fs_world \<Rightarrow> error option \<times> fs_world" where
  "locked_body out data_path w =
     (case download out data_path w of
        (Some e, w1) \<Rightarrow> (Some e, w1)
      | (None, w1) \<Rightarrow>
          (case unzip out data_path w1 of
             (Some e, w2) \<Rightarrow> (Some e, w2)
           | (None, w2) \<Rightarrow> create_hdf5 out data_path w2))"

text \<open>
  The handler of \<open>except Timeout\<close>:
  \<^verbatim>\<open>
  print("Another process holds the lock since more than {} seconds. "
        "Will try to load the dataset.").format(timeout)
  \<close>
  \<open>format\<close> is called on what \<open>print\<close> returns.
\<close>

definition timeout_message :: string where
  "timeout_message =
     ''Another process holds the lock since more than {} seconds. Will try to load the dataset.''"

definition timeout_handler :: "nat \<Rightarrow> fs_world \<Rightarrow> error option \<times> fs_world" where
  "timeout_handler timeout w =
     (let (printed, w1) = py_print timeout_message w
      in case call_format printed [str_of_nat timeout] [] of
           Inl e \<Rightarrow> (Some e, w1)
         | Inr _ \<Rightarrow> (None, w1))"

text \<open>
  \<^verbatim>\<open>
  def build_dataset(data_path, timeout=10 * 60):
      if all_hdf5_exists(data_path):
          return
      try:
          with FileLock(os.path.join(data_path, DIRNAME + ".lock"), timeout=timeout):
              download(data_path)
              unzip(data_path)
              create_hdf5(data_path)
      except Timeout:
          print(...).format(timeout)
      finally:
          clean(data_path)
  \<close>
  The result is the exception that leaves the function, if any: one raised by the
  \<open>finally\<close> block replaces one that was pending.
\<close>

definition build_dataset :: "outside \<Rightarrow> string \<Rightarrow> nat \<Rightarrow> fs_world \<Rightarrow> error option \<times> fs_world" where
  "build_dataset out data_path timeout w =
     (if all_hdf5_exists w data_path then (None, w)
      else
        (let (raised, w1) =
               (if lock_acquired out then locked_body out data_path w else (Some Timeout, w));
             (pending, w2) =
               (if raised = Some Timeout then timeout_handler timeout w1 else (raised, w1));
             (cleanup, w3) = clean data_path w2
         in case cleanup of Some e \<Rightarrow> (Some e, w3) | None \<Rightarrow> (pending, w3)))"

text \<open>
  The loaders of \<open>build\<close>, as the index lists their samplers draw from. The container
  lengths are parameters (the container class is outside \<open>src/\<close>).
  \<^verbatim>\<open>
  sampler = SubsetRandomSampler(range(int(len(dataset) / 2)))
  sampler = SubsetRandomSampler(range(int(len(dataset) / 2), len(dataset)))
  \<close>
  \<open>len(dataset) / 2\<close> is a true division: the quotient is rounded to a float, which
  \<open>int\<close> then truncates.
\<close>

definition py_range :: "nat \<Rightarrow> nat \<Rightarrow> nat list" where
  "py_range start stop = [start..<stop]"

definition int_half :: "nat \<Rightarrow> nat" where
  "int_half n = nat \<lfloor>round_double (of_nat n / 2)\<rfloor>"

definition valid_sampler_indices :: "nat \<Rightarrow> nat list" where
  "valid_sampler_indices n = py_range 0 (int_half n)"

definition test_sampler_indices :: "nat \<Rightarrow> nat list" where
  "test_sampler_indices n = py_range (int_half n) n"

record loaders =
  train_indices :: "nat list"
  valid_indices :: "nat list"
  test_indices :: "nat list"

definition build ::
  "outside \<Rightarrow> string \<Rightarrow> nat \<Rightarrow> nat \<Rightarrow> fs_world \<Rightarrow> (error + loaders) \<times> fs_world" where
  "build out data_path n_train n_val w =
     (case build_dataset out data_path (10 * 60) w of
        (Some e, w1) \<Rightarrow> (Inl e, w1)
      | (None, w1) \<Rightarrow>
          (Inr \<lparr>train_indices = py_range 0 n_train,
                valid_indices = valid_sampler_indices n_val,
                test_indices = test_sampler_indices n_val\<rparr>, w1))"

section \<open>Training driver (\<open>src/repro/train.py\<close>, \<open>train\<close>)\<close>

definition TIME_BUFFER :: int where
  "TIME_BUFFER = 60 * 5"

text \<open>
  One epoch's statistics: the epoch and, for each evaluated partition, its loss and
  error rate.
\<close>

record stats =
  stats_epoch :: int
  stats_partitions :: "(string \<times> rat \<times> rat) list"

record checkpoint =
  ck_epoch :: int
  ck_iteration :: int
  ck_all_stats :: "stats list"

text \<open>
  \<open>engine.state\<close> of the training-loop engine; \<open>last_checkpoint\<close> is a clock
  reading in microseconds.
\<close>

record engine_state =
  epoch :: int
  iteration :: int
  output_value :: rat
  last_checkpoint :: int

text \<open>
  Everything the handlers of \<open>train\<close> read and write: the engine state, the list
  \<open>all_stats\<close>, the checkpoint the tracking service holds for this task, the scheduler,
  the library state, the model's mode, the number of clock readings taken so far, and,
  for each epoch run, the generator state its sampling order was drawn from. Console
  output is not tracked.
\<close>

record trainer =
  engine :: engine_state
  all_stats :: "stats list"
  store :: "checkpoint option"
  lr_sched :: "scheduler option"
  torch :: torch_world
  model_training :: bool
  clock_reads :: nat
  sampling_drawn_from :: "nat list"

text \<open>
  What is fixed from outside for one run: the successive readings of
  \<open>datetime.utcnow()\<close> (microseconds), the evaluator's metrics (loss, accuracy) for a
  partition at an epoch, the argument \<open>compute_error_rates\<close>, the number of batches
  of the training loader, the loss of an epoch's last batch, and how drawing one
  sampling order advances the generator state.
\<close>

record run_env =
  utcnow_at :: "nat \<Rightarrow> int"
  evaluate :: "string \<Rightarrow> int \<Rightarrow> rat \<times> rat"
  compute_error_rates :: "string list"
  batches_per_epoch :: nat
  batch_loss :: "int \<Rightarrow> rat"
  rng_advance :: "nat \<Rightarrow> nat"

definition utcnow :: "run_env \<Rightarrow> trainer \<Rightarrow> int \<times> trainer" where
  "utcnow ev t = (utcnow_at ev (clock_reads t), t\<lparr>clock_reads := Suc (clock_reads t)\<rparr>)"

text \<open>\<open>timedelta.total_seconds()\<close> of a difference of two readings.\<close>

definition total_seconds :: "int \<Rightarrow> rat" where
  "total_seconds d = of_int d / 1000000"

text \<open>
  Modelled from the spec: \<open>save_checkpoint\<close> and \<open>load_checkpoint\<close> of
  \<open>repro.model.base\<close> are not under \<open>src/\<close>. The checkpoint is an opaque blob keyed
  by the task; saving then loading restores the epoch and iteration counters and the
  metric history. Model and optimizer parameters are left out.
\<close>

definition save_checkpoint :: "int \<Rightarrow> int \<Rightarrow> stats list \<Rightarrow> trainer \<Rightarrow> trainer" where
  "save_checkpoint e i sts t =
     t\<lparr>store := Some \<lparr>ck_epoch = e, ck_iteration = i, ck_all_stats = sts\<rparr>\<rparr>"

definition load_checkpoint :: "trainer \<Rightarrow> checkpoint option" where
  "load_checkpoint t = store t"

text \<open>
  Modelled from the spec: \<open>clear_checkpoint\<close> is defined nowhere under \<open>src/\<close>;
  deleting the checkpoint leaves the store empty.
\<close>

definition clear_checkpoint :: "trainer \<Rightarrow> trainer" where
  "clear_checkpoint t = t\<lparr>store := None\<rparr>"

text \<open>
  The statistics \<open>trainer_save_checkpoint\<close> gathers:
  \<^verbatim>\<open>
  stats = dict(epoch=engine.state.epoch)
  for name in ['train', 'valid', 'test']:
      if name not in compute_error_rates:
          continue
      metrics = evaluator.run(dataset[name]).metrics
      stats[name] = dict(loss=metrics['nll'], error_rate=1. - metrics['accuracy'])
  \<close>
\<close>

definition epoch_stats :: "run_env \<Rightarrow> int \<Rightarrow> stats" where
  "epoch_stats ev e =
     \<lparr>stats_epoch = e,
      stats_partitions =
        map (\<lambda>name. (name, fst (evaluate ev name e), fsub 1 (snd (evaluate ev name e))))
          (filter (\<lambda>name. name \<in> set (compute_error_rates ev)) [''train'', ''valid'', ''test''])\<rparr>"

text \<open>
  \<^verbatim>\<open>
  @trainer.on(Events.EPOCH_COMPLETED)
  def trainer_save_checkpoint(engine):
      model.eval()
      stats = ...
      all_stats.append(stats)
      if (datetime.utcnow() - engine.state.last_checkpoint).total_seconds() > TIME_BUFFER:
          save_checkpoint(mahler_client, model, optimizer, lr_scheduler,
                          epoch=engine.state.epoch, iteration=engine.state.iteration,
                          all_stats=all_stats)
          engine.state.last_checkpoint = datetime.utcnow()
  \<close>
\<close>

definition trainer_save_checkpoint :: "run_env \<Rightarrow> trainer \<Rightarrow> trainer" where
  "trainer_save_checkpoint ev t0 =
     (let t1 = t0\<lparr>model_training := False\<rparr>;
          t2 = t1\<lparr>all_stats := all_stats t1 @ [epoch_stats ev (epoch (engine t1))]\<rparr>;
          (now, t3) = utcnow ev t2
      in if total_seconds (now - last_checkpoint (engine t3)) > of_int TIME_BUFFER
         then
           (let t4 = save_checkpoint (epoch (engine t3)) (iteration (engine t3)) (all_stats t3) t3;
                (now', t5) = utcnow ev t4
            in t5\<lparr>engine := (engine t5)\<lparr>last_checkpoint := now'\<rparr>\<rparr>)
         else t3)"

text \<open>
  \<^verbatim>\<open>
  @trainer.on(Events.STARTED)
  def trainer_load_checkpoint(engine):
      engine.state.last_checkpoint = datetime.utcnow()
      metadata = load_checkpoint(mahler_client, model, optimizer, lr_scheduler)
      if metadata:
          engine.state.epoch = metadata['epoch']
          engine.state.iteration = metadata['iteration']
          for epoch_stats in metadata['all_stats']:
              all_stats.append(epoch_stats)
      else:
          engine.state.epoch = 0
          engine.state.iteration = 0
          engine.state.output = 0.0
          trainer_save_checkpoint(engine)
  \<close>
\<close>

definition trainer_load_checkpoint :: "run_env \<Rightarrow> trainer \<Rightarrow> trainer" where
  "trainer_load_checkpoint ev t0 =
     (let (now, t1) = utcnow ev t0;
          t2 = t1\<lparr>engine := (engine t1)\<lparr>last_checkpoint := now\<rparr>\<rparr>
      in case load_checkpoint t2 of
           Some metadata \<Rightarrow>
             t2\<lparr>engine := (engine t2)\<lparr>epoch := ck_epoch metadata,
                                       iteration := ck_iteration metadata\<rparr>,
                all_stats := all_stats t2 @ ck_all_stats metadata\<rparr>
         | None \<Rightarrow>
             trainer_save_checkpoint ev
               (t2\<lparr>engine := (engine t2)\<lparr>epoch := 0, iteration := 0, output_value := 0\<rparr>\<rparr>))"

text \<open>
  \<^verbatim>\<open>
  @trainer.on(Events.EPOCH_STARTED)
  def trainer_seeding(engine):
      if lr_scheduler:
          lr_scheduler.step()
      seed(seeds['sampler'] + engine.state.epoch)
      model.train()
  \<close>
\<close>

definition trainer_seeding :: "int \<Rightarrow> trainer \<Rightarrow> trainer" where
  "trainer_seeding seeds_sampler t0 =
     (let t1 = (case lr_sched t0 of
                  Some s \<Rightarrow> t0\<lparr>lr_sched := Some (step None s)\<rparr>
                | None \<Rightarrow> t0);
          t2 = t1\<lparr>torch := seed (seeds_sampler + epoch (engine t1)) (torch t1)\<rparr>
      in t2\<lparr>model_training := True\<rparr>)"

text \<open>
  One pass of the external engine over the shuffled training loader: the sampling
  order is drawn from the current generator state, which advances; the iteration
  counter grows by the number of batches.
\<close>

definition run_once_on_dataset :: "run_env \<Rightarrow> trainer \<Rightarrow> trainer" where
  "run_once_on_dataset ev t =
     t\<lparr>engine := (engine t)\<lparr>iteration := iteration (engine t) + int (batches_per_epoch ev),
                              output_value := batch_loss ev (epoch (engine t))\<rparr>,
       sampling_drawn_from := sampling_drawn_from t @ [rng_state (torch t)],
       torch := (torch t)\<lparr>rng_state := rng_advance ev (rng_state (torch t))\<rparr>\<rparr>"

text \<open>
  The external engine's loop, \<open>trainer.run(dataset['train'], max_epochs)\<close>:
  \<^verbatim>\<open>
  self.state = State(epoch=0, ...)
  fire(STARTED)
  while self.state.epoch < max_epochs:
      self.state.epoch += 1
      fire(EPOCH_STARTED); run_once_on_dataset(); fire(EPOCH_COMPLETED)
  \<close>
\<close>

definition one_epoch :: "run_env \<Rightarrow> int \<Rightarrow> trainer \<Rightarrow> trainer" where
  "one_epoch ev seeds_sampler t =
     trainer_save_checkpoint ev
       (run_once_on_dataset ev
          (trainer_seeding seeds_sampler
             (t\<lparr>engine := (engine t)\<lparr>epoch := epoch (engine t) + 1\<rparr>\<rparr>)))"

function run_epochs :: "run_env \<Rightarrow> int \<Rightarrow> int \<Rightarrow> trainer \<Rightarrow> trainer" where
  "run_epochs ev seeds_sampler max_epochs t =
     (if epoch (engine t) < max_epochs
      then run_epochs ev seeds_sampler max_epochs (one_epoch ev seeds_sampler t)
      else t)"
  by pat_completeness auto
termination
proof (relation "measure (\<lambda>(ev, seeds_sampler, max_epochs, t). nat (max_epochs - epoch (engine t)))")
  show "wf (measure (\<lambda>(ev, seeds_sampler, max_epochs, t). nat (max_epochs - epoch (engine t))))"
    by simp
next
  fix ev :: run_env and seeds_sampler max_epochs :: int and t :: trainer
  assume less: "epoch (engine t) < max_epochs"
  have "epoch (engine (one_epoch ev seeds_sampler t)) = epoch (engine t) + 1"
    by (simp add: one_epoch_def trainer_save_checkpoint_def run_once_on_dataset_def
        trainer_seeding_def save_checkpoint_def utcnow_def Let_def split: option.split)
  with less show "((ev, seeds_sampler, max_epochs, one_epoch ev seeds_sampler t),
      (ev, seeds_sampler, max_epochs, t))
      \<in> measure (\<lambda>(ev, seeds_sampler, max_epochs, t). nat (max_epochs - epoch (engine t)))"
    by simp
qed

declare run_epochs.simps [simp del]

definition trainer_run :: "run_env \<Rightarrow> int \<Rightarrow> int \<Rightarrow> trainer \<Rightarrow> trainer" where
  "trainer_run ev seeds_sampler max_epochs t =
     run_epochs ev seeds_sampler max_epochs
       (trainer_load_checkpoint ev
          (t\<lparr>engine := \<lparr>epoch = 0, iteration = 0, output_value = 0, last_checkpoint = 0\<rparr>\<rparr>))"

text \<open>
  The names bound at module level in \<open>train.py\<close> (imports, constants, functions,
  classes). No Python builtin is called \<open>clear_checkpoint\<close>.
\<close>

definition train_globals :: "(string \<times> pyval) list" where
  "train_globals =
     map (\<lambda>name. (name, PyObj name))
       [''bisect_right'', ''datetime'', ''argparse'', ''pprint'', ''random'', ''numpy'',
        ''Events'', ''create_supervised_trainer'', ''create_supervised_evaluator'',
        ''Timer'', ''Accuracy'', ''Loss'', ''merge_configs'', ''unflatten'', ''mahler'',
        ''torch'', ''F'', ''tqdm'', ''yaml'', ''build_dataset'', ''build_model'',
        ''load_checkpoint'', ''save_checkpoint'', ''build_optimizer'', ''TIME_BUFFER'',
        ''update'', ''update_lr'', ''MultiStepLR'', ''build_config'', ''build_experiment'',
        ''main'', ''train'', ''seed'']"

text \<open>
  \<^verbatim>\<open>
  def train(data, model, optimizer, model_seed=1, sampler_seed=1, max_epochs=200, ...):
      mahler_client = mahler.Client()
      dataset, model, optimizer, lr_scheduler, device, seeds = build_experiment(...)
      ...
      all_stats = []
      ...
      trainer.run(dataset['train'], max_epochs=max_epochs)
      # Remove checkpoint to avoid cluttering the FS.
      clear_checkpoint(mahler_client)
      return {'last': all_stats[-1], 'all': tuple(all_stats)}
  \<close>
  The result pairs what \<open>train\<close> returns or raises with the checkpoint the store
  holds afterwards.
\<close>

definition train ::
  "run_env \<Rightarrow> rat list \<Rightarrow> config \<Rightarrow> int \<Rightarrow> checkpoint option \<Rightarrow> torch_world \<Rightarrow>
     (error + stats \<times> stats list) \<times> checkpoint option" where
  "train ev optimizer config max_epochs stored w =
     (case build_experiment optimizer config w of
        Inl e \<Rightarrow> (Inl e, stored)
      | Inr (ex, w1) \<Rightarrow>
          (let t = trainer_run ev (exp_seeds_sampler ex) max_epochs
                     \<lparr>engine = \<lparr>epoch = 0, iteration = 0, output_value = 0, last_checkpoint = 0\<rparr>,
                      all_stats = [], store = stored, lr_sched = exp_lr_scheduler ex,
                      torch = w1, model_training = True, clock_reads = 0,
                      sampling_drawn_from = []\<rparr>
           in case load_global train_globals ''clear_checkpoint'' of
                Inl e \<Rightarrow> (Inl e, store t)
              | Inr _ \<Rightarrow>
                  (let t' = clear_checkpoint t
                   in if all_stats t' = [] then (Inl IndexError, store t')
                      else (Inr (last (all_stats t'), all_stats t'), store t'))))"

section \<open>Batch submission script (\<open>bin/0.benchmark/zoo/save.py\<close>)\<close>

definition EXPERIMENT :: string where
  "EXPERIMENT = ''benchmark''"

definition orion_template :: string where
  "orion_template =
     ''orion hunt -n {experiment};{dataset};{model};{version} --config /configs/orion.core/orion_config.yaml''"

definition kleio_template :: string where
  "kleio_template =
     ''kleio run --allow-host-changes --config /config/kleio.core/kleio_config.yaml --tags {experiment};{dataset};{model};{version}''"

definition script_template :: string where
  "script_template =
     ''python3.6 /repos/sgd-space/src/sgdad/train.py --config={file_path} --model-seed 1 --sampler-seed 1 --epochs 300''"

definition commandline_template :: string where
  "commandline_template = ''{orion} {kleio} {script}''"

text \<open>The names bound at module level in \<open>save.py\<close>.\<close>

definition save_globals :: "(string \<times> pyval) list" where
  "save_globals =
     [(''asyncio'', PyObj ''asyncio''), (''argparse'', PyObj ''argparse''), (''os'', PyObj ''os''),
      (''execute'', PyObj ''execute''), (''EXPERIMENT'', PyStr EXPERIMENT),
      (''orion_template'', PyStr orion_template), (''kleio_template'', PyStr kleio_template),
      (''script_template'', PyStr script_template),
      (''commandline_template'', PyStr commandline_template),
      (''parse_args'', PyObj ''parse_args''), (''get_instances'', PyObj ''get_instances''),
      (''main'', PyObj ''main'')]"

definition py_str :: "pyval \<Rightarrow> string" where
  "py_str v = (case v of PyStr s \<Rightarrow> s | PyNone \<Rightarrow> ''None'' | PyObj name \<Rightarrow> name)"

text \<open>The parsed command line of the script.\<close>

record args =
  configs :: string
  version :: string
  datasets :: "string list option"
  models :: "string list option"
  print_only :: bool

text \<open>
  \<open>get_instances\<close> walks the directory \<open>configs_root/experiment\<close>, given here as its
  listing: each entry with whether it is a directory and, if so, its own listing.
  \<^verbatim>\<open>
  for dataset in possible_datasets:          # the entries that are directories
      if datasets and dataset not in datasets: continue
      possible_models = [model[:-5] for model in os.listdir(...)
                         if model.split(".")[-1] == "yaml"]
      for model in possible_models:
          if models and model not in models: continue
          file_path = os.path.join(configs_root, experiment, dataset, model + ".yaml")
          yield dataset, model, file_path
  \<close>
\<close>

definition selected :: "string list option \<Rightarrow> string \<Rightarrow> bool" where
  "selected chosen x = (case chosen of None \<Rightarrow> True | Some xs \<Rightarrow> xs = [] \<or> x \<in> set xs)"

definition split_last :: "char \<Rightarrow> string \<Rightarrow> string" where
  "split_last sep s = rev (takeWhile (\<lambda>c. c \<noteq> sep) (rev s))"

definition possible_models :: "string list \<Rightarrow> string list" where
  "possible_models listing =
     map (\<lambda>model. take (length model - 5) model)
       (filter (\<lambda>model. split_last CHR ''.'' model = ''yaml'') listing)"

definition get_instances ::
  "(string \<times> bool \<times> string list) list \<Rightarrow> string \<Rightarrow> string list option \<Rightarrow> string list option \<Rightarrow>
     string \<Rightarrow> (string \<times> string \<times> string) list" where
  "get_instances tree configs_root datasets_arg models_arg experiment_dir =
     concat
       (map (\<lambda>(dataset, is_dir, listing).
               if is_dir \<and> selected datasets_arg dataset
               then map (\<lambda>model.
                           (dataset, model,
                            os_path_join
                              (os_path_join (os_path_join configs_root experiment_dir) dataset)
                              (model @ ''.yaml'')))
                      (filter (selected models_arg) (possible_models listing))
               else [])
          tree)"

text \<open>
  Modelled from the spec: \<open>execute\<close> of \<open>sgdad.utils.commandline\<close> is not under
  \<open>src/\<close>. With \<open>print_only\<close> it prints the command line and starts nothing;
  otherwise it starts the command as a subprocess.
\<close>

record launcher =
  printed :: "string list"
  spawned :: "string list"

definition execute :: "string \<Rightarrow> bool \<Rightarrow> launcher \<Rightarrow> launcher" where
  "execute commandline only_print l =
     (if only_print then l\<lparr>printed := printed l @ [commandline]\<rparr>
      else l\<lparr>spawned := spawned l @ [commandline]\<rparr>)"

text \<open>
  The loop of \<open>main\<close>, which builds one command line per instance:
  \<^verbatim>\<open>
  for dataset, model, file_path in iterator:
      orion = orion_template.format(
          experiment=EXPERIMENT, dataset=dataset, model=model, version=args.version)
      kleio = kleio_template.format(
          experiment=EXPERIMENT, dataset=dataset, model=model, version=args.version)
      script = script_template.format(
          file_path=file_path, data_wrapper_level=data_wrapper_level)
      commandline = commandline_template.format(kleio=kleio, script=script)
      futures.append(execute(commandline, print_only=args.print_only))
  \<close>
  \<open>data_wrapper_level\<close> is read as a global of the module when the arguments of the
  third \<open>format\<close> are evaluated.
\<close>

fun main_loop :: "string \<Rightarrow> (string \<times> string \<times> string) list \<Rightarrow> error + string list" where
  "main_loop ver [] = Inr []"
| "main_loop ver ((dataset, model, file_path) # rest) =
     (let tags = [(''experiment'', EXPERIMENT), (''dataset'', dataset), (''model'', model),
                  (''version'', ver)]
      in case py_format orion_template [] tags of
           Inl e \<Rightarrow> Inl e
         | Inr orion \<Rightarrow>
        (case py_format kleio_template [] tags of
           Inl e \<Rightarrow> Inl e
         | Inr kleio \<Rightarrow>
        (case load_global save_globals ''data_wrapper_level'' of
           Inl e \<Rightarrow> Inl e
         | Inr level \<Rightarrow>
        (case py_format script_template []
                [(''file_path'', file_path), (''data_wrapper_level'', py_str level)] of
           Inl e \<Rightarrow> Inl e
         | Inr script \<Rightarrow>
        (case py_format commandline_template [] [(''kleio'', kleio), (''script'', script)] of
           Inl e \<Rightarrow> Inl e
         | Inr commandline \<Rightarrow>
        (case main_loop ver rest of
           Inl e \<Rightarrow> Inl e
         | Inr commandlines \<Rightarrow> Inr (commandline # commandlines)))))))"

text \<open>
  \<open>main\<close>: the futures are run only after the loop has built all of them
  (\<open>loop.run_until_complete(asyncio.gather(*futures))\<close>).
\<close>

definition main ::
  "(string \<times> bool \<times> string list) list \<Rightarrow> args \<Rightarrow> launcher \<Rightarrow> error option \<times> launcher" where
  "main tree a l =
     (case main_loop (version a)
             (get_instances tree (configs a) (datasets a) (models a) ''0.benchmark'') of
        Inl e \<Rightarrow> (Some e, l)
      | Inr commandlines \<Rightarrow> (None, fold (\<lambda>c. execute c (print_only a)) commandlines l))"

section \<open>Sample runs\<close>

text \<open>
  Concrete inputs on which the model is evaluated: a clock whose readings are one
  second apart, one whose readings are 400 seconds apart, constant metrics, and a
  trainer that has not started, with an empty checkpoint store.
\<close>

definition quick_clock :: "nat \<Rightarrow> int" where
  "quick_clock k = int k * 1000000"

definition slow_clock :: "nat \<Rightarrow> int" where
  "slow_clock k = int k * 400000000"

definition sample_metrics :: "string \<Rightarrow> int \<Rightarrow> rat \<times> rat" where
  "sample_metrics name e = (1, 1 / 2)"

definition sample_loss :: "int \<Rightarrow> rat" where
  "sample_loss e = 1"

definition sample_env :: "(nat \<Rightarrow> int) \<Rightarrow> run_env" where
  "sample_env clock =
     \<lparr>utcnow_at = clock, evaluate = sample_metrics,
        compute_error_rates = [''train'', ''valid''], batches_per_epoch = 10,
        batch_loss = sample_loss, rng_advance = Suc\<rparr>"

definition sample_world :: "nat \<Rightarrow> torch_world" where
  "sample_world r =
     \<lparr>cuda_available = True, cudnn_benchmark = False, cudnn_deterministic = True,
        rng_state = r\<rparr>"

definition fresh_trainer :: "nat \<Rightarrow> trainer" where
  "fresh_trainer r =
     \<lparr>engine = \<lparr>epoch = 0, iteration = 0, output_value = 0, last_checkpoint = 0\<rparr>,
        all_stats = [], store = None, lr_sched = None, torch = sample_world r,
        model_training = True, clock_reads = 0, sampling_drawn_from = []\<rparr>"

definition sample_config :: config where
  "sample_config = \<lparr>model_seed = Some 1, sampler_seed = Some 1, lr_scheduler = None\<rparr>"

text \<open>
  The scheduler built for milestones 60 and 120 with base rate 1.0 and the first-epoch
  division off; a world in which both containers are in place under \<open>/data\<close>, and an
  outside in which nothing fails.
\<close>

definition sample_scheduler :: scheduler where
  "sample_scheduler =
     \<lparr>div_first_epoch = 0, milestones = [60, 120], gamma = round_double (1 / 10),
        base_lrs = [1], last_epoch = - 1, optimizer_lrs = [1]\<rparr>"

definition prepared_world :: fs_world where
  "prepared_world =
     \<lparr>files = [''/data/tinyimagenet_train.h5'', ''/data/tinyimagenet_val.h5''],
        stdout = [], io_log = []\<rparr>"

definition idle_outside :: outside where
  "idle_outside =
     \<lparr>lock_acquired = True, download_fails = None, unzip_fails = None,
        train_loader_fails = None, val_loader_fails = None\<rparr>"

section \<open>Properties\<close>

subsection \<open>Binary search counts the milestones reached\<close>

lemma bisect_right_loop_bounds:
  "lo \<le> hi \<Longrightarrow> lo \<le> bisect_right_loop a x lo hi \<and> bisect_right_loop a x lo hi \<le> hi"
proof (induction a x lo hi rule: bisect_right_loop.induct)
  case (1 a x lo hi)
  show ?case
  proof (cases "lo < hi")
    case False
    with "1.prems" show ?thesis by (simp add: bisect_right_loop.simps)
  next
    case True
    let ?mid = "(lo + hi) div 2"
    show ?thesis
    proof (cases "x < a ! ?mid")
      case left: True
      have "lo \<le> ?mid" and up: "?mid \<le> hi" using True by simp_all
      from "1.IH"(1)[OF True refl left this(1)] True left up show ?thesis
        by (subst (1 2) bisect_right_loop.simps) (simp add: Let_def)
    next
      case right: False
      have "?mid + 1 \<le> hi" and low: "lo \<le> ?mid + 1" using True by simp_all
      from "1.IH"(2)[OF True refl right this(1)] True right low show ?thesis
        by (subst (1 2) bisect_right_loop.simps) (simp add: Let_def)
    qed
  qed
qed

lemma bisect_right_loop_partition:
  assumes "sorted a" "lo \<le> hi" "hi \<le> length a"
    and "\<forall>i<lo. a ! i \<le> x" and "\<forall>i. hi \<le> i \<and> i < length a \<longrightarrow> x < a ! i"
  shows "(\<forall>i<bisect_right_loop a x lo hi. a ! i \<le> x) \<and>
         (\<forall>i. bisect_right_loop a x lo hi \<le> i \<and> i < length a \<longrightarrow> x < a ! i)"
  using assms
proof (induction a x lo hi rule: bisect_right_loop.induct)
  case (1 a x lo hi)
  show ?case
  proof (cases "lo < hi")
    case False
    with "1.prems" have "lo = hi" by simp
    with "1.prems" show ?thesis by (simp add: bisect_right_loop.simps)
  next
    case True
    let ?mid = "(lo + hi) div 2"
    have mid: "lo \<le> ?mid" "?mid < hi" using True by simp_all
    show ?thesis
    proof (cases "x < a ! ?mid")
      case left: True
      have above: "\<forall>i. ?mid \<le> i \<and> i < length a \<longrightarrow> x < a ! i"
      proof (intro allI impI)
        fix i assume i: "?mid \<le> i \<and> i < length a"
        with "1.prems"(1) have "a ! ?mid \<le> a ! i" by (simp add: sorted_nth_mono)
        with left show "x < a ! i" by simp
      qed
      have "?mid \<le> length a" using mid "1.prems"(3) by simp
      from "1.IH"(1)[OF True refl left "1.prems"(1) mid(1) this "1.prems"(4) above]
      show ?thesis using True left
        by (subst (1 2) bisect_right_loop.simps) (simp add: Let_def)
    next
      case right: False
      have below: "\<forall>i<?mid + 1. a ! i \<le> x"
      proof (intro allI impI)
        fix i assume i: "i < ?mid + 1"
        have "?mid < length a" using mid "1.prems"(3) by simp
        with i "1.prems"(1) have "a ! i \<le> a ! ?mid" by (simp add: sorted_nth_mono)
        with right show "a ! i \<le> x" by simp
      qed
      have "?mid + 1 \<le> hi" using mid by simp
      from "1.IH"(2)[OF True refl right "1.prems"(1) this "1.prems"(3) below "1.prems"(5)]
      show ?thesis using True right
        by (subst (1 2) bisect_right_loop.simps) (simp add: Let_def)
    qed
  qed
qed

lemma filter_le_prefix:
  assumes "r \<le> length a" "\<forall>i<r. a ! i \<le> (x::int)"
    and "\<forall>i. r \<le> i \<and> i < length a \<longrightarrow> x < a ! i"
  shows "length (filter (\<lambda>m. m \<le> x) a) = r"
proof -
  have t: "filter (\<lambda>m. m \<le> x) (take r a) = take r a"
    using assms(1,2) by (auto simp: filter_id_conv in_set_conv_nth)
  have d: "filter (\<lambda>m. m \<le> x) (drop r a) = []"
  proof -
    have "\<not> m \<le> x" if "m \<in> set (drop r a)" for m
    proof -
      from that obtain i where i: "i < length a - r" "m = a ! (r + i)"
        by (auto simp: in_set_conv_nth)
      with assms(3) have "x < a ! (r + i)" by simp
      with i show ?thesis by simp
    qed
    then show ?thesis by (simp add: filter_empty_conv)
  qed
  have "filter (\<lambda>m. m \<le> x) a = filter (\<lambda>m. m \<le> x) (take r a @ drop r a)" by simp
  also have "\<dots> = take r a" unfolding filter_append t d by simp
  finally show ?thesis using assms(1) by simp
qed

lemma bisect_right_sorted:
  assumes "sorted a"
  shows "bisect_right a x = length (filter (\<lambda>m. m \<le> x) a)"
proof -
  let ?r = "bisect_right_loop a x 0 (length a)"
  have b: "?r \<le> length a" using bisect_right_loop_bounds[of 0 "length a" a x] by simp
  have p: "(\<forall>i<?r. a ! i \<le> x) \<and> (\<forall>i. ?r \<le> i \<and> i < length a \<longrightarrow> x < a ! i)"
    using bisect_right_loop_partition[OF assms, of 0 "length a" x] by simp
  show ?thesis unfolding bisect_right_def
    using filter_le_prefix[OF b, of x] p by simp
qed

subsection \<open>Rounding to a double\<close>

lemma ilog2_bounds:
  assumes "0 < x"
  shows "2 powi (ilog2 x) \<le> x \<and> x < 2 powi (ilog2 x + 1)"
proof -
  obtain p q where pq: "quotient_of x = (p, q)" by (cases "quotient_of x")
  then have q: "0 < q" and x: "x = of_int p / of_int q"
    by (auto dest: quotient_of_denom_pos quotient_of_div)
  from assms x q have p: "0 < p" by (simp add: zero_less_divide_iff)
  define bp bq where "bp = bitlen p" and "bq = bitlen q"
  from bitlen_bounds [OF p] have pb: "2 ^ nat (bp - 1) \<le> p" "p < 2 ^ nat bp"
    by (simp_all add: bp_def)
  from bitlen_bounds [OF q] have qb: "2 ^ nat (bq - 1) \<le> q" "q < 2 ^ nat bq"
    by (simp_all add: bq_def)
  have bp1: "1 \<le> bp" using p by (auto simp: bp_def bitlen_alt_def)
  have bq1: "1 \<le> bq" using q by (auto simp: bq_def bitlen_alt_def)
  have pr: "(2::rat) powi (bp - 1) \<le> of_int p" "of_int p < (2::rat) powi bp"
  proof -
    have "(of_int (2 ^ nat (bp - 1)) :: rat) \<le> of_int p" using pb(1) by (simp only: of_int_le_iff)
    then show "(2::rat) powi (bp - 1) \<le> of_int p" using bp1 by (simp add: power_int_def)
    have "(of_int p :: rat) < of_int (2 ^ nat bp)" using pb(2) by (simp only: of_int_less_iff)
    then show "of_int p < (2::rat) powi bp" using bp1 by (simp add: power_int_def)
  qed
  have qr: "(2::rat) powi (bq - 1) \<le> of_int q" "of_int q < (2::rat) powi bq"
  proof -
    have "(of_int (2 ^ nat (bq - 1)) :: rat) \<le> of_int q" using qb(1) by (simp only: of_int_le_iff)
    then show "(2::rat) powi (bq - 1) \<le> of_int q" using bq1 by (simp add: power_int_def)
    have "(of_int q :: rat) < of_int (2 ^ nat bq)" using qb(2) by (simp only: of_int_less_iff)
    then show "of_int q < (2::rat) powi bq" using bq1 by (simp add: power_int_def)
  qed
  have qpos: "(0::rat) < of_int q" using q by simp
  have lower: "(2::rat) powi (bp - bq - 1) < x"
  proof -
    have e: "(2::rat) powi (bp - bq - 1) * 2 powi bq = 2 powi (bp - 1)"
    proof -
      have "(2::rat) powi ((bp - bq - 1) + bq) = 2 powi (bp - bq - 1) * 2 powi bq"
        by (rule power_int_add) simp
      moreover have "(bp - bq - 1) + bq = bp - 1" by simp
      ultimately show ?thesis by simp
    qed
    have "(2::rat) powi (bp - bq - 1) * of_int q < 2 powi (bp - bq - 1) * 2 powi bq"
      by (rule mult_strict_left_mono [OF qr(2)]) simp
    with e pr(1) have "(2::rat) powi (bp - bq - 1) * of_int q < of_int p" by simp
    then show ?thesis using qpos unfolding x by (simp add: pos_less_divide_eq)
  qed
  have upper: "x < (2::rat) powi (bp - bq + 1)"
  proof -
    have e: "(2::rat) powi (bp - bq + 1) * 2 powi (bq - 1) = 2 powi bp"
    proof -
      have "(2::rat) powi ((bp - bq + 1) + (bq - 1)) = 2 powi (bp - bq + 1) * 2 powi (bq - 1)"
        by (rule power_int_add) simp
      moreover have "(bp - bq + 1) + (bq - 1) = bp" by simp
      ultimately show ?thesis by simp
    qed
    have "(2::rat) powi (bp - bq + 1) * 2 powi (bq - 1) \<le> 2 powi (bp - bq + 1) * of_int q"
      by (rule mult_left_mono [OF qr(1)]) simp
    with e pr(2) have "of_int p < (2::rat) powi (bp - bq + 1) * of_int q" by simp
    then show ?thesis using qpos unfolding x by (simp add: pos_divide_less_eq)
  qed
  have il: "ilog2 x = (if 2 powi (bp - bq) \<le> x then bp - bq else bp - bq - 1)"
    by (simp add: ilog2_def pq bp_def bq_def Let_def)
  show ?thesis
  proof (cases "2 powi (bp - bq) \<le> x")
    case True
    with il upper show ?thesis by simp
  next
    case False
    with il lower show ?thesis by simp
  qed
qed

lemma powi2_less_imp_less:
  assumes "(2::rat) powi a < 2 powi b"
  shows "a < b"
proof (rule ccontr)
  assume "\<not> a < b"
  then have "b \<le> a" by simp
  then have "(2::rat) powi b \<le> 2 powi a" by (intro power_int_increasing) simp_all
  with assms show False by simp
qed

lemma ilog2_unique:
  assumes "2 powi e \<le> x" "x < 2 powi (e + 1)"
  shows "ilog2 x = e"
proof -
  have "(0::rat) < 2 powi e" by (rule zero_less_power_int) simp
  from this assms(1) have pos: "0 < x" by (rule less_le_trans)
  from ilog2_bounds [OF pos] have b: "2 powi (ilog2 x) \<le> x" "x < 2 powi (ilog2 x + 1)"
    by blast+
  have "(2::rat) powi e < 2 powi (ilog2 x + 1)" using assms(1) b(2) by (rule le_less_trans)
  then have 1: "e < ilog2 x + 1" by (rule powi2_less_imp_less)
  have "(2::rat) powi (ilog2 x) < 2 powi (e + 1)" using b(1) assms(2) by (rule le_less_trans)
  then have 2: "ilog2 x < e + 1" by (rule powi2_less_imp_less)
  from 1 2 show ?thesis by linarith
qed


lemma rne_of_int: "rne (of_int k) = k"
  by (simp add: rne_def)

lemma rne_close: "\<bar>of_int (rne y) - y\<bar> \<le> 1 / 2"
proof -
  have f: "of_int \<lfloor>y\<rfloor> \<le> y" "y < of_int \<lfloor>y\<rfloor> + 1"
    by linarith+
  show ?thesis
    using f by (auto simp: rne_def Let_def abs_le_iff)
qed

lemma powi2_split:
  "(2::rat) powi (a + b) = 2 powi a * 2 powi b"
  by (rule power_int_add) simp

lemma round_double_exact:
  assumes "\<bar>m\<bar> < 2 ^ 53" and "- 1074 \<le> j"
  shows "round_double (of_int m * 2 powi j) = of_int m * 2 powi j"
proof (cases "m = 0")
  case True
  then show ?thesis by (simp add: round_double_def)
next
  case False
  define x :: rat where "x = of_int \<bar>m\<bar> * 2 powi j"
  have p2: "(0::rat) < 2 powi j" by (rule zero_less_power_int) simp
  have xpos: "0 < x" using False p2 by (simp add: x_def)
  have absx: "\<bar>of_int m * 2 powi j\<bar> = x"
    using p2 by (simp add: x_def abs_mult)
  define e where "e = ilog2 x"
  from ilog2_bounds [OF xpos] have lo: "2 powi e \<le> x" by (simp add: e_def)
  have "(of_int \<bar>m\<bar> :: rat) < of_int (2 ^ 53)" using assms(1) by (simp only: of_int_less_iff)
  then have "(of_int \<bar>m\<bar> :: rat) < 2 powi 53" by simp
  then have "x < 2 powi 53 * 2 powi j" unfolding x_def using p2 by (simp add: mult_strict_right_mono)
  also have "\<dots> = 2 powi (53 + j)" by (rule powi2_split [symmetric])
  finally have "(2::rat) powi e < 2 powi (53 + j)" using lo by simp
  then have e: "e < 53 + j" by (rule powi2_less_imp_less)
  define E where "E = max e (- 1022)"
  have E: "E \<le> 52 + j" using e assms(2) by (simp add: E_def)
  define k where "k = nat (52 + j - E)"
  have q: "quantum (of_int m * 2 powi j) = 2 powi (E - 52)"
    by (simp add: quantum_def absx E_def e_def)
  have "(2::rat) powi j = 2 powi (int k + (E - 52))" using E by (simp add: k_def)
  also have "\<dots> = 2 powi (int k) * 2 powi (E - 52)" by (rule powi2_split)
  finally have j: "(2::rat) powi j = 2 ^ k * 2 powi (E - 52)" by simp
  have qpos: "(0::rat) < 2 powi (E - 52)" by (rule zero_less_power_int) simp
  have ratio: "x / 2 powi (E - 52) = of_int (\<bar>m\<bar> * 2 ^ k)"
    unfolding x_def j using qpos by simp
  have "of_int (rne (x / 2 powi (E - 52))) * 2 powi (E - 52) = x"
    unfolding ratio rne_of_int by (simp add: x_def j)
  moreover have "sgn (of_int m * 2 powi j) * x = of_int m * 2 powi j"
  proof -
    have "sgn (of_int m :: rat) * of_int \<bar>m\<bar> = of_int m"
      by (cases "m < 0") (simp_all add: sgn_if)
    moreover have "sgn (of_int m * 2 powi j :: rat) = sgn (of_int m)"
      using p2 by (simp add: sgn_mult)
    ultimately show ?thesis by (simp add: x_def mult.assoc [symmetric])
  qed
  ultimately show ?thesis
    using False p2 by (simp add: round_double_def q absx)
qed

lemma int_half_exact:
  assumes "n \<le> 2 ^ 53"
  shows "int_half n = n div 2"
proof (cases "even n")
  case True
  then obtain h where h: "n = 2 * h" by (elim evenE)
  with assms have "h < 2 ^ 53" by simp
  then have "\<bar>int h\<bar> < 2 ^ 53" by (simp add: of_nat_less_numeral_power_cancel_iff)
  from round_double_exact [OF this, of 0] have "round_double (of_int (int h)) = of_int (int h)"
    by simp
  then have "round_double (of_nat n / 2) = of_nat h" by (simp add: h)
  then show ?thesis by (simp add: int_half_def h)
next
  case False
  with assms have "n \<noteq> 2 ^ 53" by auto
  with assms have "n < 2 ^ 53" by simp
  then have "\<bar>int n\<bar> < 2 ^ 53" by (simp add: of_nat_less_numeral_power_cancel_iff)
  from round_double_exact [OF this, of "- 1"]
  have "round_double (of_nat n / 2) = of_nat n / 2" by (simp add: power_int_minus field_simps)
  moreover have "\<lfloor>(of_nat n :: rat) / 2\<rfloor> = int (n div 2)"
    using floor_divide_of_nat_eq [of n 2, where ?'a = rat] by simp
  ultimately show ?thesis by (simp only: int_half_def nat_int)
qed

lemma int_half_le: "int_half n \<le> n"
proof (cases "n = 0")
  case True
  then show ?thesis by (simp add: int_half_def round_double_def)
next
  case False
  define x :: rat where "x = of_nat n / 2"
  have half: "1 / 2 \<le> x" using False by (simp add: x_def)
  then have xpos: "0 < x" by simp
  define e where "e = ilog2 x"
  from ilog2_bounds [OF xpos] have lo: "2 powi e \<le> x" and hi: "x < 2 powi (e + 1)"
    by (simp_all add: e_def)
  have "(2::rat) powi (- 1) \<le> x" using half by (simp add: power_int_minus)
  with hi have "(2::rat) powi (- 1) < 2 powi (e + 1)" by simp
  then have "- 1 < e + 1" by (rule powi2_less_imp_less)
  then have E: "max e (- 1022) = e" by simp
  define q :: rat where "q = 2 powi (e - 52)"
  have qpos: "0 < q" unfolding q_def by (rule zero_less_power_int) simp
  have "q = 2 powi (e + (- 52))" by (simp add: q_def)
  also have "\<dots> = 2 powi e * 2 powi (- 52)" by (rule powi2_split)
  also have "\<dots> \<le> x * 2 powi (- 52)" using lo by (simp add: mult_right_mono)
  also have "\<dots> \<le> x * 2" using xpos by (simp add: power_int_minus)
  finally have qx: "q \<le> 2 * x" by simp
  have "quantum x = 2 powi (max e (- 1022) - 52)"
    using xpos by (simp add: quantum_def e_def)
  then have qu: "quantum x = q" by (simp only: E q_def)
  from rne_close [of "x / q"] have "of_int (rne (x / q)) \<le> x / q + 1 / 2"
    by linarith
  then have "of_int (rne (x / q)) * q \<le> (x / q + 1 / 2) * q"
    using qpos by (simp add: mult_right_mono)
  also have "\<dots> = x + q / 2" using qpos by (simp add: field_simps)
  also have "\<dots> \<le> 2 * x" using qx by simp
  finally have r: "of_int (rne (x / q)) * q \<le> 2 * x" .
  have rd: "round_double x = of_int (rne (x / q)) * q"
    using xpos by (simp add: round_double_def qu)
  have "2 * x = of_nat n" by (simp add: x_def)
  with r rd have "round_double x \<le> of_nat n" by (simp only:)
  then have "\<lfloor>round_double x\<rfloor> \<le> int n" by (simp add: floor_le_iff)
  then show ?thesis by (simp add: int_half_def x_def)
qed


text \<open>The doubles that the literals and products of the schedule denote.\<close>

lemma double_0_1: "round_double (1 / 10) = 3602879701896397 / 36028797018963968"
  by code_simp

lemma double_0_01: "round_double (1 / 100) = 5764607523034235 / 576460752303423488"
  by code_simp

lemma double_0_1_squared:
  "round_double ((3602879701896397 / 36028797018963968) ^ 2) =
     1441151880758559 / 144115188075855872"
  by code_simp

lemma round_double_one: "round_double 1 = 1"
  using round_double_exact [of 1 0] by simp

lemma round_double_0_1_again:
  "round_double (3602879701896397 / 36028797018963968) = 3602879701896397 / 36028797018963968"
  by code_simp

lemma round_double_0_1_squared_again:
  "round_double (1441151880758559 / 144115188075855872) =
     1441151880758559 / 144115188075855872"
  by code_simp

lemma rate_step_0: "fmul 1 (fpow (round_double (1 / 10)) 0) = 1"
  by (simp add: fmul_def fpow_def round_double_one)

lemma rate_step_1: "fmul 1 (fpow (round_double (1 / 10)) 1) = round_double (1 / 10)"
proof -
  have "fpow (round_double (1 / 10)) 1 = round_double (1 / 10)"
    unfolding fpow_def power_one_right double_0_1 by (rule round_double_0_1_again)
  then have "fmul 1 (fpow (round_double (1 / 10)) 1) = round_double (round_double (1 / 10))"
    unfolding fmul_def by (simp only: mult_1)
  also have "\<dots> = round_double (1 / 10)"
    unfolding double_0_1 by (rule round_double_0_1_again)
  finally show ?thesis .
qed

lemma rate_step_2:
  "fmul 1 (fpow (round_double (1 / 10)) 2) = 1441151880758559 / 144115188075855872"
proof -
  have "fpow (round_double (1 / 10)) 2 = 1441151880758559 / 144115188075855872"
    unfolding fpow_def double_0_1 by (rule double_0_1_squared)
  then have "fmul 1 (fpow (round_double (1 / 10)) 2) =
      round_double (1441151880758559 / 144115188075855872)"
    unfolding fmul_def by (simp only: mult_1)
  also have "\<dots> = 1441151880758559 / 144115188075855872"
    by (rule round_double_0_1_squared_again)
  finally show ?thesis .
qed

lemma rate_step_2_above_0_01:
  "(1441151880758559 / 144115188075855872 :: rat) = round_double (1 / 100) + 1 / 2 ^ 59"
  unfolding double_0_01 by simp

lemma int_half_beyond_2_53: "int_half 9007199254740995 = 4503599627370498"
proof -
  have "\<lfloor>round_double (9007199254740995 / 2)\<rfloor> = 4503599627370498"
    by code_simp
  then show ?thesis by (simp add: int_half_def)
qed

subsection \<open>Learning-rate schedule\<close>

lemma torch_init_sorted:
  assumes "sorted ms"
  shows "torch_MultiStepLR_init dfe optimizer ms g le =
           Inr ((step (Some (le + 1))
                   \<lparr>div_first_epoch = dfe, milestones = ms, gamma = g, base_lrs = optimizer,
                      last_epoch = le, optimizer_lrs = optimizer\<rparr>)\<lparr>last_epoch := le\<rparr>)"
  using assms by (simp add: torch_MultiStepLR_init_def sorted_sort_id Let_def)

lemma step_fields:
  "div_first_epoch (step ep s) = div_first_epoch s"
  "milestones (step ep s) = milestones s"
  "gamma (step ep s) = gamma s"
  "base_lrs (step ep s) = base_lrs s"
  by (simp_all add: step_def Let_def)

lemma get_lr_after_first_epoch:
  assumes "sorted (milestones s)" "1 \<le> last_epoch s"
  shows "get_lr s =
           map (\<lambda>b. fmul b (fpow (gamma s)
                               (length (filter (\<lambda>m. m \<le> last_epoch s) (milestones s)))))
             (base_lrs s)"
  using assms by (simp add: get_lr_def bisect_right_sorted)

lemma get_lr_flag_off:
  assumes "sorted (milestones s)" "div_first_epoch s = 0"
  shows "get_lr s =
           map (\<lambda>b. fmul b (fpow (gamma s)
                               (length (filter (\<lambda>m. m \<le> last_epoch s) (milestones s)))))
             (base_lrs s)"
  using assms by (simp add: get_lr_def truthy_def bisect_right_sorted)

lemma step_writes_rates:
  assumes "length (optimizer_lrs s) = length (base_lrs s)"
  shows "last_epoch (step None s) = last_epoch s + 1 \<and>
         optimizer_lrs (step None s) = get_lr (s\<lparr>last_epoch := last_epoch s + 1\<rparr>)"
  using assms by (simp add: step_def assign_lrs_def get_lr_def Let_def)

lemma sample_scheduler_rate:
  "get_lr (sample_scheduler\<lparr>last_epoch := e\<rparr>) =
     [fmul 1 (fpow (round_double (1 / 10)) (length (filter (\<lambda>m. m \<le> e) [60, 120])))]"
  using get_lr_flag_off [of "sample_scheduler\<lparr>last_epoch := e\<rparr>"]
  by (simp add: sample_scheduler_def)

lemma sample_scheduler_built:
  "MultiStepLR_init [1] [60, 120] g 0 le = Inr sample_scheduler"
proof -
  have srt: "sorted [60, 120 :: int]" by simp
  let ?s0 = "\<lparr>div_first_epoch = 0, milestones = [60, 120], gamma = round_double (1 / 10),
      base_lrs = [1], last_epoch = - 1, optimizer_lrs = [1]\<rparr>"
  have "?s0\<lparr>last_epoch := 0\<rparr> = sample_scheduler\<lparr>last_epoch := 0\<rparr>"
    by (simp add: sample_scheduler_def)
  then have "get_lr (?s0\<lparr>last_epoch := 0\<rparr>) = [fmul 1 (fpow (round_double (1 / 10)) 0)]"
    using sample_scheduler_rate [of 0] by simp
  then have "get_lr (?s0\<lparr>last_epoch := 0\<rparr>) = [1]" by (simp only: rate_step_0)
  then have "(step (Some (- 1 + 1)) ?s0)\<lparr>last_epoch := - 1\<rparr> = sample_scheduler"
    by (simp add: step_def assign_lrs_def Let_def sample_scheduler_def)
  with torch_init_sorted [OF srt, of 0 "[1]" "round_double (1 / 10)" "- 1"]
  show ?thesis by (simp add: MultiStepLR_init_def)
qed

text \<open>
  C1, as stated, fails at epoch 120: the scheduler for milestones [60, 120], gamma 0.1,
  base rate 1.0 and no first-epoch division returns \<open>1.0 * 0.1 ** 2\<close>, the double
  5764607523034236 / 2 ^ 59 (printed 0.010000000000000002), while 0.01 is the double
  5764607523034235 / 2 ^ 59; the rate is neither that double nor the number 1/100.
\<close>

theorem C1_rate_from_epoch_120_counterexample:
  "MultiStepLR_init [1] [60, 120] (round_double (1 / 10)) 0 (- 1) = Inr sample_scheduler \<and>
   get_lr (sample_scheduler\<lparr>last_epoch := 120\<rparr>) = [5764607523034236 / 2 ^ 59] \<and>
   round_double (1 / 100) = 5764607523034235 / 2 ^ 59 \<and>
   get_lr (sample_scheduler\<lparr>last_epoch := 120\<rparr>) \<noteq> [round_double (1 / 100)] \<and>
   get_lr (sample_scheduler\<lparr>last_epoch := 120\<rparr>) \<noteq> [1 / 100]"
proof -
  have "length (filter (\<lambda>m. m \<le> 120) [60, 120 :: int]) = 2" by simp
  then have rate: "get_lr (sample_scheduler\<lparr>last_epoch := 120\<rparr>) =
      [1441151880758559 / 144115188075855872]"
    by (simp only: sample_scheduler_rate rate_step_2)
  have lit: "round_double (1 / 100) = 5764607523034235 / 576460752303423488"
    by (rule double_0_01)
  show ?thesis
    unfolding rate lit by (simp add: sample_scheduler_built)
qed

text \<open>
  C1, amended. With milestones [60, 120], gamma 0.1, base rate 1.0 and the first-epoch
  division off, the constructor succeeds and the rate returned at current epoch \<open>e\<close>
  is the float 1.0 for \<open>0 \<le> e < 60\<close>, the float 0.1 for \<open>60 \<le> e < 120\<close>, and for
  \<open>e \<ge> 120\<close> the float \<open>1.0 * 0.1 ** 2\<close>, which is one unit in the last place above
  the float 0.01 (it prints as 0.010000000000000002). The exponent is what the binary
  search returns on the sorted milestones, the number of milestones that are at most
  \<open>e\<close>.
\<close>

theorem C1_rates_at_milestones_60_120:
  "\<exists>s. MultiStepLR_init [1] [60, 120] (round_double (1 / 10)) 0 (- 1) = Inr s \<and>
       sorted (milestones s) \<and>
       (\<forall>e. (0 \<le> e \<and> e < 60 \<longrightarrow> get_lr (s\<lparr>last_epoch := e\<rparr>) = [1]) \<and>
            (60 \<le> e \<and> e < 120 \<longrightarrow>
               get_lr (s\<lparr>last_epoch := e\<rparr>) = [round_double (1 / 10)]) \<and>
            (120 \<le> e \<longrightarrow>
               get_lr (s\<lparr>last_epoch := e\<rparr>) = [round_double (1 / 100) + 1 / 2 ^ 59]) \<and>
            get_lr (s\<lparr>last_epoch := e\<rparr>) =
              [fmul 1 (fpow (gamma s) (bisect_right (milestones s) e))] \<and>
            bisect_right (milestones s) e = length (filter (\<lambda>m. m \<le> e) (milestones s)))"
proof -
  have srt: "sorted [60, 120 :: int]" by simp
  have fields: "milestones sample_scheduler = [60, 120]"
    "gamma sample_scheduler = round_double (1 / 10)"
    by (simp_all add: sample_scheduler_def)
  have count: "bisect_right [60, 120] e = length (filter (\<lambda>m. m \<le> e) [60, 120])" for e
    by (rule bisect_right_sorted [OF srt])
  have low: "get_lr (sample_scheduler\<lparr>last_epoch := e\<rparr>) = [1]" if "e < 60" for e
  proof -
    from that have "length (filter (\<lambda>m. m \<le> e) [60, 120]) = 0" by simp
    then show ?thesis by (simp only: sample_scheduler_rate rate_step_0)
  qed
  have mid: "get_lr (sample_scheduler\<lparr>last_epoch := e\<rparr>) = [round_double (1 / 10)]"
    if "60 \<le> e" "e < 120" for e
  proof -
    from that have "length (filter (\<lambda>m. m \<le> e) [60, 120]) = 1" by simp
    then show ?thesis by (simp only: sample_scheduler_rate rate_step_1)
  qed
  have high: "get_lr (sample_scheduler\<lparr>last_epoch := e\<rparr>) =
      [round_double (1 / 100) + 1 / 2 ^ 59]" if "120 \<le> e" for e
  proof -
    from that have "length (filter (\<lambda>m. m \<le> e) [60, 120]) = 2" by simp
    then show ?thesis
      by (simp only: sample_scheduler_rate rate_step_2 rate_step_2_above_0_01)
  qed
  have shape: "get_lr (sample_scheduler\<lparr>last_epoch := e\<rparr>) =
      [fmul 1 (fpow (gamma sample_scheduler) (bisect_right (milestones sample_scheduler) e))]"
    for e
    by (simp only: fields count sample_scheduler_rate)
  have "sorted (milestones sample_scheduler)" by (simp add: fields)
  moreover have "bisect_right (milestones sample_scheduler) e =
      length (filter (\<lambda>m. m \<le> e) (milestones sample_scheduler))" for e
    by (simp only: fields count)
  ultimately show ?thesis
    using sample_scheduler_built [of "round_double (1 / 10)" "- 1"] low mid high shape
    by (intro exI [of _ sample_scheduler]) simp
qed

theorem C1_rates_at_milestones_60_120_witness:
  "\<exists>s. MultiStepLR_init [1] [60, 120] (round_double (1 / 10)) 0 (- 1) = Inr s \<and>
       get_lr (s\<lparr>last_epoch := 0\<rparr>) = [1] \<and> get_lr (s\<lparr>last_epoch := 59\<rparr>) = [1] \<and>
       get_lr (s\<lparr>last_epoch := 60\<rparr>) = [round_double (1 / 10)] \<and>
       get_lr (s\<lparr>last_epoch := 119\<rparr>) = [round_double (1 / 10)] \<and>
       get_lr (s\<lparr>last_epoch := 120\<rparr>) = [round_double (1 / 100) + 1 / 2 ^ 59] \<and>
       get_lr (s\<lparr>last_epoch := 500\<rparr>) = [round_double (1 / 100) + 1 / 2 ^ 59]"
proof -
  from C1_rates_at_milestones_60_120 obtain s where
    init: "MultiStepLR_init [1] [60, 120] (round_double (1 / 10)) 0 (- 1) = Inr s" and
    all: "\<And>e. (0 \<le> e \<and> e < 60 \<longrightarrow> get_lr (s\<lparr>last_epoch := e\<rparr>) = [1]) \<and>
            (60 \<le> e \<and> e < 120 \<longrightarrow>
               get_lr (s\<lparr>last_epoch := e\<rparr>) = [round_double (1 / 10)]) \<and>
            (120 \<le> e \<longrightarrow>
               get_lr (s\<lparr>last_epoch := e\<rparr>) = [round_double (1 / 100) + 1 / 2 ^ 59])"
    by blast
  from all [of 0] all [of 59] all [of 60] all [of 119] all [of 120] all [of 500] init
  show ?thesis by (intro exI [of _ s]) simp
qed

text \<open>
  C10. The constructor does not use the values passed for gamma and last_epoch: any two
  calls that differ only there give the same result, and whenever a scheduler is
  constructed (which is the case for milestones in increasing order) its gamma is the
  float 0.1 and its last_epoch is -1.
\<close>

theorem C10_constructor_ignores_gamma_and_last_epoch:
  "MultiStepLR_init optimizer ms g dfe le = MultiStepLR_init optimizer ms g' dfe le' \<and>
   (sorted ms \<longrightarrow>
      (\<exists>s. MultiStepLR_init optimizer ms g dfe le = Inr s \<and>
           gamma s = round_double (1 / 10) \<and> last_epoch s = - 1)) \<and>
   (\<forall>s. MultiStepLR_init optimizer ms g dfe le = Inr s \<longrightarrow>
        gamma s = round_double (1 / 10) \<and> last_epoch s = - 1)"
proof -
  have same: "MultiStepLR_init optimizer ms g dfe le = MultiStepLR_init optimizer ms g' dfe le'"
    by (simp add: MultiStepLR_init_def)
  have built: "\<exists>s. MultiStepLR_init optimizer ms g dfe le = Inr s \<and>
      gamma s = round_double (1 / 10) \<and> last_epoch s = - 1" if "sorted ms"
    using that by (simp add: MultiStepLR_init_def torch_init_sorted step_fields)
  have fixed: "gamma s = round_double (1 / 10) \<and> last_epoch s = - 1"
    if "MultiStepLR_init optimizer ms g dfe le = Inr s" for s
    using that
    by (auto simp: MultiStepLR_init_def torch_MultiStepLR_init_def Let_def step_fields
        split: if_splits)
  from same built fixed show ?thesis by blast
qed

theorem C10_constructor_ignores_gamma_and_last_epoch_witness:
  "MultiStepLR_init [1] [60, 120] (1 / 2) 0 7 =
     MultiStepLR_init [1] [60, 120] (round_double (1 / 10)) 0 (- 1) \<and>
   (\<exists>s. MultiStepLR_init [1] [60, 120] (1 / 2) 0 7 = Inr s \<and>
        gamma s = round_double (1 / 10) \<and> last_epoch s = - 1)"
proof -
  have "sorted [60, 120 :: int]" by simp
  with C10_constructor_ignores_gamma_and_last_epoch
    [of "[1]" "[60, 120]" "1 / 2" 0 7 "round_double (1 / 10)" "- 1"]
  show ?thesis by blast
qed

text \<open>
  C9. When the scheduler configuration holds the milestones \<open>first # remaining\<close>
  (with the seeds defined, a GPU present and \<open>remaining\<close> in increasing order),
  \<open>build_experiment\<close> builds a scheduler whose first-epoch flag is \<open>first\<close> and whose
  milestones are \<open>remaining\<close>; from epoch 1 on the rate is stepped once for each
  element of \<open>remaining\<close> that has been reached, so \<open>first\<close> is no epoch boundary.
\<close>

theorem C9_first_milestone_is_the_flag:
  assumes "model_seed config = Some m" and "sampler_seed config = Some sm"
    and "cuda_available w"
    and "lr_scheduler config = Some d"
    and "map_of d ''milestones'' = Some (first # remaining)"
    and "sorted remaining"
  shows "\<exists>ex w' s. build_experiment optimizer config w = Inr (ex, w') \<and>
           exp_lr_scheduler ex = Some s \<and>
           div_first_epoch s = first \<and> milestones s = remaining \<and>
           (\<forall>e. 1 \<le> e \<longrightarrow>
              get_lr (s\<lparr>last_epoch := e\<rparr>) =
                map (\<lambda>b. fmul b (fpow (round_double (1 / 10))
                                    (length (filter (\<lambda>m. m \<le> e) remaining))))
                  optimizer)"
proof -
  define s where "s = (step (Some (- 1 + 1))
      \<lparr>div_first_epoch = first, milestones = remaining, gamma = round_double (1 / 10),
         base_lrs = optimizer, last_epoch = - 1, optimizer_lrs = optimizer\<rparr>)\<lparr>last_epoch := - 1\<rparr>"
  have init: "MultiStepLR_init optimizer remaining (round_double (1 / 10)) first (- 1) = Inr s"
    unfolding MultiStepLR_init_def s_def by (rule torch_init_sorted [OF assms(6)])
  have fields: "milestones s = remaining" "gamma s = round_double (1 / 10)"
    "base_lrs s = optimizer" "div_first_epoch s = first"
    by (simp_all add: s_def step_fields)
  from assms(5) have "d \<noteq> []" by auto
  with assms(5) init have sched: "build_lr_scheduler optimizer (Some d) = Inr (Some s)"
    by (simp add: build_lr_scheduler_def)
  have built: "build_experiment optimizer config w =
      Inr (\<lparr>exp_optimizer = optimizer, exp_lr_scheduler = Some s, exp_seeds_model = m,
             exp_seeds_sampler = sm\<rparr>, seed m (seed sm w))"
    using assms(1-4) sched by (simp add: build_experiment_def seed_def Let_def)
  have rate: "get_lr (s\<lparr>last_epoch := e\<rparr>) =
      map (\<lambda>b. fmul b (fpow (round_double (1 / 10))
                          (length (filter (\<lambda>m. m \<le> e) remaining))))
        optimizer"
    if "1 \<le> e" for e
    using get_lr_after_first_epoch [of "s\<lparr>last_epoch := e\<rparr>"] that assms(6)
    by (simp add: fields)
  from built fields rate show ?thesis by auto
qed

theorem C9_first_milestone_is_the_flag_witness:
  "\<exists>ex w' s.
     build_experiment [1]
       \<lparr>model_seed = Some 1, sampler_seed = Some 1,
          lr_scheduler = Some [(''milestones'', [30, 60, 120])]\<rparr>
       \<lparr>cuda_available = True, cudnn_benchmark = False, cudnn_deterministic = True,
          rng_state = 0\<rparr> = Inr (ex, w') \<and>
     exp_lr_scheduler ex = Some s \<and> div_first_epoch s = 30 \<and> milestones s = [60, 120] \<and>
     get_lr (s\<lparr>last_epoch := 29\<rparr>) = [1] \<and> get_lr (s\<lparr>last_epoch := 30\<rparr>) = [1] \<and>
     get_lr (s\<lparr>last_epoch := 45\<rparr>) = [1] \<and>
     get_lr (s\<lparr>last_epoch := 60\<rparr>) = [round_double (1 / 10)]"
proof -
  let ?config = "\<lparr>model_seed = Some 1, sampler_seed = Some 1,
          lr_scheduler = Some [(''milestones'', [30, 60, 120])]\<rparr>"
  let ?w = "\<lparr>cuda_available = True, cudnn_benchmark = False, cudnn_deterministic = True,
          rng_state = 0\<rparr>"
  have "\<exists>ex w' s. build_experiment [1] ?config ?w = Inr (ex, w') \<and>
           exp_lr_scheduler ex = Some s \<and>
           div_first_epoch s = 30 \<and> milestones s = [60, 120] \<and>
           (\<forall>e. 1 \<le> e \<longrightarrow>
              get_lr (s\<lparr>last_epoch := e\<rparr>) =
                map (\<lambda>b. fmul b (fpow (round_double (1 / 10))
                                    (length (filter (\<lambda>m. m \<le> e) [60, 120]))))
                  [1])"
    by (rule C9_first_milestone_is_the_flag
        [of ?config 1 1 ?w "[(''milestones'', [30, 60, 120])]" 30 "[60, 120]" "[1]"]) simp_all
  then obtain ex w' s where
    b: "build_experiment [1] ?config ?w = Inr (ex, w')" "exp_lr_scheduler ex = Some s"
      "div_first_epoch s = 30" "milestones s = [60, 120]" and
    r: "\<And>e. 1 \<le> e \<Longrightarrow> get_lr (s\<lparr>last_epoch := e\<rparr>) =
        [fmul 1 (fpow (round_double (1 / 10)) (length (filter (\<lambda>m. m \<le> e) [60, 120])))]"
    by auto
  have l0: "length (filter (\<lambda>m. m \<le> e) [60, 120 :: int]) = 0" if "e < 60" for e
    using that by simp
  have l1: "length (filter (\<lambda>m. m \<le> 60) [60, 120 :: int]) = 1" by simp
  have "get_lr (s\<lparr>last_epoch := 29\<rparr>) = [1]" "get_lr (s\<lparr>last_epoch := 30\<rparr>) = [1]"
    "get_lr (s\<lparr>last_epoch := 45\<rparr>) = [1]"
    using r [of 29] r [of 30] r [of 45] l0 [of 29] l0 [of 30] l0 [of 45]
    by (simp_all only: rate_step_0)
  moreover have "get_lr (s\<lparr>last_epoch := 60\<rparr>) = [round_double (1 / 10)]"
    using r [of 60] by (simp only: l1 rate_step_1)
  ultimately show ?thesis using b by blast
qed

subsection \<open>Dataset preparer and loader\<close>

lemma files_py_print [simp]: "files (snd (py_print s w)) = files w"
  by (simp add: py_print_def)

lemma files_log_io [simp]: "files (log_io ev w) = files w"
  by (simp add: log_io_def)

lemma files_add_file: "set (files (add_file p w)) = insert p (set (files w))"
  by (auto simp: add_file_def)

lemma os_path_join_relative:
  assumes "b \<noteq> []" "hd b \<noteq> CHR ''/''"
  shows "os_path_join p b = (if p = [] \<or> last p = CHR ''/'' then p else p @ ''/'') @ b"
  using assms by (simp add: os_path_join_def)

lemma timeout_handler_raises:
  "fst (timeout_handler timeout w) =
     Some (AttributeError ''NoneType object has no attribute format'')"
  by (simp add: timeout_handler_def py_print_def call_format_def)

lemma create_hdf5_file_files:
  "set (files (snd (create_hdf5_file fails path w))) = insert path (set (files w))"
  by (simp add: create_hdf5_file_def files_add_file)

lemma create_hdf5_done:
  assumes "create_hdf5 out data_path w = (None, w1)"
  shows "os_path_join data_path TRAIN_FILENAME \<in> set (files w1) \<and>
         os_path_join data_path VAL_FILENAME \<in> set (files w1)"
proof -
  let ?tr = "os_path_join data_path ''tinyimagenet_train.h5''"
  let ?va = "os_path_join data_path ''tinyimagenet_val.h5''"
  obtain r wa where a: "create_hdf5_file (train_loader_fails out) ?tr w = (r, wa)"
    by (cases "create_hdf5_file (train_loader_fails out) ?tr w")
  with assms have r: "r = None" and b: "create_hdf5_file (val_loader_fails out) ?va wa = (None, w1)"
    by (auto simp: create_hdf5_def split: option.splits)
  from a have "?tr \<in> set (files wa)"
    using create_hdf5_file_files [of "train_loader_fails out" ?tr w] by simp
  moreover from b have "set (files w1) = insert ?va (set (files wa))"
    using create_hdf5_file_files [of "val_loader_fails out" ?va wa] by simp
  ultimately show ?thesis by (simp add: TRAIN_FILENAME_def VAL_FILENAME_def)
qed

lemma locked_body_done:
  assumes "locked_body out data_path w = (None, w1)"
  shows "os_path_join data_path TRAIN_FILENAME \<in> set (files w1) \<and>
         os_path_join data_path VAL_FILENAME \<in> set (files w1)"
proof -
  obtain r1 wa where d: "download out data_path w = (r1, wa)"
    by (cases "download out data_path w")
  obtain r2 wb where u: "unzip out data_path wa = (r2, wb)"
    by (cases "unzip out data_path wa")
  from assms d u have "create_hdf5 out data_path wb = (None, w1)"
    by (auto simp: locked_body_def split: option.splits)
  then show ?thesis by (rule create_hdf5_done)
qed

lemma clean_keeps_containers:
  assumes "clean data_path w = (None, w')"
    and "os_path_join data_path TRAIN_FILENAME \<in> set (files w)"
    and "os_path_join data_path VAL_FILENAME \<in> set (files w)"
  shows "all_hdf5_exists w' data_path"
proof -
  define x where
    "x = (if data_path = [] \<or> last data_path = CHR ''/'' then data_path else data_path @ ''/'')"
  have tr: "os_path_join data_path TRAIN_FILENAME = x @ ''tinyimagenet_train.h5''"
    unfolding x_def by (subst os_path_join_relative) (simp_all add: TRAIN_FILENAME_def)
  have va: "os_path_join data_path VAL_FILENAME = x @ ''tinyimagenet_val.h5''"
    unfolding x_def by (subst os_path_join_relative) (simp_all add: VAL_FILENAME_def)
  have d: "get_dirpath data_path = x @ ''tiny-imagenet-200''"
    unfolding get_dirpath_def x_def
    by (subst os_path_join_relative) (simp_all add: DIRNAME_def)
  have keep_tr: "x @ ''tinyimagenet_train.h5'' \<noteq> x @ ''tiny-imagenet-200'' \<and>
      \<not> prefix ((x @ ''tiny-imagenet-200'') @ ''/'') (x @ ''tinyimagenet_train.h5'')"
    by simp
  have keep_va: "x @ ''tinyimagenet_val.h5'' \<noteq> x @ ''tiny-imagenet-200'' \<and>
      \<not> prefix ((x @ ''tiny-imagenet-200'') @ ''/'') (x @ ''tinyimagenet_val.h5'')"
    by simp
  from assms(1) have f: "files w' =
      filter (\<lambda>p. p \<noteq> get_dirpath data_path \<and> \<not> prefix (get_dirpath data_path @ ''/'') p)
        (files w)"
    by (auto simp: clean_def Let_def split: if_splits)
  have "x @ ''tinyimagenet_train.h5'' \<in> set (files w')"
    using assms(2) keep_tr unfolding f tr d by simp
  moreover have "x @ ''tinyimagenet_val.h5'' \<in> set (files w')"
    using assms(3) keep_va unfolding f va d by simp
  ultimately show ?thesis
    by (simp add: all_hdf5_exists_def os_path_exists_def tr va)
qed

lemma build_dataset_noop:
  "all_hdf5_exists w data_path \<Longrightarrow> build_dataset out data_path timeout w = (None, w)"
  by (simp add: build_dataset_def)

lemma build_dataset_success:
  assumes "build_dataset out data_path timeout w = (None, w')"
  shows "all_hdf5_exists w' data_path"
proof (cases "all_hdf5_exists w data_path")
  case True
  with assms show ?thesis by (simp add: build_dataset_def)
next
  case False
  obtain raised w1 where body:
    "(if lock_acquired out then locked_body out data_path w else (Some Timeout, w)) = (raised, w1)"
    by (cases "if lock_acquired out then locked_body out data_path w else (Some Timeout, w)")
  obtain pending w2 where handler:
    "(if raised = Some Timeout then timeout_handler timeout w1 else (raised, w1)) = (pending, w2)"
    by (cases "if raised = Some Timeout then timeout_handler timeout w1 else (raised, w1)")
  obtain cleanup w3 where cl: "clean data_path w2 = (cleanup, w3)"
    by (cases "clean data_path w2")
  from assms False body handler cl have res: "cleanup = None" "pending = None" "w3 = w'"
    by (auto simp: build_dataset_def split: option.splits)
  have no_timeout: "raised \<noteq> Some Timeout"
  proof
    assume "raised = Some Timeout"
    with handler have "fst (timeout_handler timeout w1) = pending" by simp
    with res(2) timeout_handler_raises [of timeout w1] show False by simp
  qed
  with handler res(2) have "raised = None" "w2 = w1" by simp_all
  with body no_timeout have "locked_body out data_path w = (None, w2)"
    by (auto split: if_splits)
  then have "os_path_join data_path TRAIN_FILENAME \<in> set (files w2) \<and>
      os_path_join data_path VAL_FILENAME \<in> set (files w2)"
    by (rule locked_body_done)
  with cl res(1,3) show ?thesis by (auto intro: clean_keeps_containers)
qed

text \<open>
  C7. When both container files exist under the target directory, \<open>build_dataset\<close>
  returns at once and leaves the world as it was: no path is created or removed, nothing
  is printed and no I/O operation is attempted. Hence a call that follows a successful
  one changes nothing, whatever the outside would do.
\<close>

theorem C7_build_dataset_is_a_noop_when_prepared:
  "(all_hdf5_exists w data_path \<longrightarrow> build_dataset out data_path timeout w = (None, w)) \<and>
   (build_dataset out data_path timeout w = (None, w') \<longrightarrow>
      build_dataset out2 data_path timeout2 w' = (None, w'))"
  using build_dataset_noop build_dataset_success by blast

theorem C7_build_dataset_is_a_noop_when_prepared_witness:
  "build_dataset
     \<lparr>lock_acquired = False, download_fails = Some (ExternalError ''network''),
        unzip_fails = None, train_loader_fails = None, val_loader_fails = None\<rparr>
     ''/data'' 600
     \<lparr>files = [''/data/tinyimagenet_train.h5'', ''/data/tinyimagenet_val.h5''],
        stdout = [], io_log = []\<rparr> =
   (None, \<lparr>files = [''/data/tinyimagenet_train.h5'', ''/data/tinyimagenet_val.h5''],
            stdout = [], io_log = []\<rparr>)"
proof -
  let ?w = "\<lparr>files = [''/data/tinyimagenet_train.h5'', ''/data/tinyimagenet_val.h5''],
        stdout = [], io_log = []\<rparr>"
  have "all_hdf5_exists ?w ''/data''"
    by (simp add: all_hdf5_exists_def os_path_exists_def os_path_join_def
        TRAIN_FILENAME_def VAL_FILENAME_def)
  with C7_build_dataset_is_a_noop_when_prepared [of ?w "''/data''"] show ?thesis by blast
qed

lemma set_py_range: "set (py_range start stop) = {start..<stop}"
  by (simp add: py_range_def)

lemma sampler_ranges:
  "int_half n \<le> n \<and>
   set (valid_sampler_indices n) \<inter> set (test_sampler_indices n) = {} \<and>
   set (valid_sampler_indices n) \<union> set (test_sampler_indices n) = {0..<n} \<and>
   valid_sampler_indices n @ test_sampler_indices n = [0..<n] \<and>
   distinct (valid_sampler_indices n @ test_sampler_indices n)"
proof -
  have le: "int_half n \<le> n" by (rule int_half_le)
  have cat: "[0..<int_half n] @ [int_half n..<n] = [0..<n]"
    using upt_add_eq_append [of 0 "int_half n" "n - int_half n"] le by simp
  have "{0..<int_half n} \<union> {int_half n..<n} = {0..<n}" using le by auto
  moreover have "distinct ([0..<int_half n] @ [int_half n..<n])" unfolding cat by simp
  ultimately show ?thesis
    using le by (simp add: valid_sampler_indices_def test_sampler_indices_def py_range_def cat)
qed

lemma build_loaders:
  assumes "build out data_path n_train n_val w = (Inr l, w')"
  shows "valid_indices l = valid_sampler_indices n_val \<and>
         test_indices l = test_sampler_indices n_val"
  using assms by (auto simp: build_def split: prod.splits option.splits)

text \<open>
  C8, as stated, fails for a container of 2 ^ 53 + 3 = 9007199254740995 records:
  \<open>int(len(dataset) / 2)\<close> is 4503599627370498 there, one more than the floor of
  half the length, so the validation loader of \<open>build\<close> also draws index
  4503599627370497, which is not below the floor.
\<close>

theorem C8_half_of_a_huge_length_counterexample:
  "fst (build idle_outside ''/data'' 100000 9007199254740995 prepared_world) =
     Inr \<lparr>train_indices = py_range 0 100000,
           valid_indices = py_range 0 4503599627370498,
           test_indices = py_range 4503599627370498 9007199254740995\<rparr> \<and>
   (9007199254740995 :: nat) div 2 = 4503599627370497 \<and>
   4503599627370497 \<in> set (py_range 0 4503599627370498) \<and>
   (4503599627370497 :: nat) \<notin> {0..<9007199254740995 div 2} \<and>
   set (py_range 0 4503599627370498) \<noteq> {0..<9007199254740995 div 2}"
proof -
  have prepared: "all_hdf5_exists prepared_world ''/data''"
    by (simp add: all_hdf5_exists_def os_path_exists_def os_path_join_def prepared_world_def
        TRAIN_FILENAME_def VAL_FILENAME_def)
  have built: "fst (build idle_outside ''/data'' 100000 9007199254740995 prepared_world) =
     Inr \<lparr>train_indices = py_range 0 100000,
           valid_indices = py_range 0 4503599627370498,
           test_indices = py_range 4503599627370498 9007199254740995\<rparr>"
    by (simp add: build_def build_dataset_noop [OF prepared] valid_sampler_indices_def
        test_sampler_indices_def int_half_beyond_2_53)
  have half: "(9007199254740995 :: nat) div 2 = 4503599627370497" by simp
  have inside: "(4503599627370497 :: nat) \<in> set (py_range 0 4503599627370498)"
    unfolding set_py_range by simp
  have outside: "(4503599627370497 :: nat) \<notin> {0..<9007199254740995 div 2}"
    unfolding half by simp
  from inside outside have "set (py_range 0 4503599627370498) \<noteq> {0..<9007199254740995 div 2}"
    by blast
  with built half inside outside show ?thesis by blast
qed

text \<open>
  C8, amended. For a validation container of length \<open>n\<close>, the validation loader that
  \<open>build\<close> returns draws from the indices \<open>0 ..< k\<close> and the test loader from
  \<open>k ..< n\<close>, where \<open>k = int(n / 2)\<close> is at most \<open>n\<close>; the two ranges are disjoint and,
  put one after the other, list every index below \<open>n\<close> exactly once. When \<open>n\<close> is at
  most \<open>2 ^ 53\<close>, \<open>k\<close> is the floor of \<open>n / 2\<close>, so the ranges are \<open>0 ..< n div 2\<close>
  and \<open>n div 2 ..< n\<close>.
\<close>

theorem C8_validation_and_test_ranges:
  assumes "build out data_path n_train n_val w = (Inr l, w')"
  shows "valid_indices l = py_range 0 (int_half n_val) \<and>
         test_indices l = py_range (int_half n_val) n_val \<and>
         int_half n_val \<le> n_val \<and>
         set (valid_indices l) \<inter> set (test_indices l) = {} \<and>
         set (valid_indices l) \<union> set (test_indices l) = {0..<n_val} \<and>
         valid_indices l @ test_indices l = [0..<n_val] \<and>
         distinct (valid_indices l @ test_indices l) \<and>
         (n_val \<le> 2 ^ 53 \<longrightarrow>
            set (valid_indices l) = {0..<n_val div 2} \<and>
            set (test_indices l) = {n_val div 2..<n_val})"
proof -
  from build_loaders [OF assms] have l: "valid_indices l = valid_sampler_indices n_val"
    "test_indices l = test_sampler_indices n_val"
    by simp_all
  have small: "set (valid_sampler_indices n_val) = {0..<n_val div 2} \<and>
      set (test_sampler_indices n_val) = {n_val div 2..<n_val}" if "n_val \<le> 2 ^ 53"
    using int_half_exact [OF that]
    by (simp add: valid_sampler_indices_def test_sampler_indices_def set_py_range)
  have shape: "valid_sampler_indices n_val = py_range 0 (int_half n_val)"
    "test_sampler_indices n_val = py_range (int_half n_val) n_val"
    by (simp_all add: valid_sampler_indices_def test_sampler_indices_def)
  from sampler_ranges [of n_val] small shape show ?thesis unfolding l by blast
qed

theorem C8_validation_and_test_ranges_witness:
  "\<exists>l w'. build idle_outside ''/data'' 100000 10000 prepared_world = (Inr l, w') \<and>
     set (valid_indices l) = {0..<5000} \<and> set (test_indices l) = {5000..<10000} \<and>
     set (valid_indices l) \<inter> set (test_indices l) = {} \<and>
     set (valid_indices l) \<union> set (test_indices l) = {0..<10000}"
proof -
  have prepared: "all_hdf5_exists prepared_world ''/data''"
    by (simp add: all_hdf5_exists_def os_path_exists_def os_path_join_def prepared_world_def
        TRAIN_FILENAME_def VAL_FILENAME_def)
  define l where "l = \<lparr>train_indices = py_range 0 100000,
      valid_indices = valid_sampler_indices 10000,
      test_indices = test_sampler_indices 10000\<rparr>"
  have built: "build idle_outside ''/data'' 100000 10000 prepared_world = (Inr l, prepared_world)"
    by (simp add: build_def build_dataset_noop [OF prepared] l_def)
  have small: "(10000 :: nat) \<le> 2 ^ 53" by simp
  have half: "(10000 :: nat) div 2 = 5000" by simp
  from C8_validation_and_test_ranges [OF built] small
  have "set (valid_indices l) = {0..<10000 div 2}" "set (test_indices l) = {10000 div 2..<10000}"
    "set (valid_indices l) \<inter> set (test_indices l) = {}"
    "set (valid_indices l) \<union> set (test_indices l) = {0..<10000}"
    by blast+
  with built show ?thesis unfolding half by blast
qed

text \<open>
  C3. The claim is that a lock timeout is caught and logged and that \<open>build_dataset\<close>
  then returns normally. The code does not do so: when the containers are missing and
  the lock is not obtained, the handler prints the message with its placeholder
  unfilled and then calls \<open>format\<close> on the \<open>None\<close> that \<open>print\<close> returned, so an
  exception always leaves \<open>build_dataset\<close>: the \<open>AttributeError\<close> of the handler when
  the unpacked directory exists, the \<open>FileNotFoundError\<close> of the cleanup otherwise.
\<close>

theorem C3_timeout_leaves_by_exception:
  assumes "\<not> all_hdf5_exists w data_path" and "\<not> lock_acquired out"
  shows "fst (build_dataset out data_path timeout w) =
           Some (if os_path_exists w (get_dirpath data_path)
                 then AttributeError ''NoneType object has no attribute format''
                 else FileNotFoundError (get_dirpath data_path)) \<and>
         timeout_message \<in> set (stdout (snd (build_dataset out data_path timeout w)))"
  using assms
  by (simp add: build_dataset_def timeout_handler_def py_print_def call_format_def
      clean_def os_path_exists_def log_io_def Let_def)

theorem C3_timeout_leaves_by_exception_witness:
  "fst (build_dataset
          \<lparr>lock_acquired = False, download_fails = None, unzip_fails = None,
             train_loader_fails = None, val_loader_fails = None\<rparr>
          ''/data'' 600
          \<lparr>files = [''/data/tiny-imagenet-200''], stdout = [], io_log = []\<rparr>) =
     Some (AttributeError ''NoneType object has no attribute format'') \<and>
   fst (build_dataset
          \<lparr>lock_acquired = False, download_fails = None, unzip_fails = None,
             train_loader_fails = None, val_loader_fails = None\<rparr>
          ''/data'' 600
          \<lparr>files = [], stdout = [], io_log = []\<rparr>) =
     Some (FileNotFoundError ''/data/tiny-imagenet-200'')"
proof -
  let ?out = "\<lparr>lock_acquired = False, download_fails = None, unzip_fails = None,
             train_loader_fails = None, val_loader_fails = None\<rparr>"
  let ?w1 = "\<lparr>files = [''/data/tiny-imagenet-200''], stdout = [], io_log = []\<rparr>"
  let ?w2 = "\<lparr>files = [], stdout = [], io_log = []\<rparr>"
  have missing: "\<not> all_hdf5_exists ?w1 ''/data''" "\<not> all_hdf5_exists ?w2 ''/data''"
    by (simp_all add: all_hdf5_exists_def os_path_exists_def os_path_join_def
        TRAIN_FILENAME_def VAL_FILENAME_def)
  have no_lock: "\<not> lock_acquired ?out" by simp
  have dir: "get_dirpath ''/data'' = ''/data/tiny-imagenet-200''"
    by (simp add: get_dirpath_def os_path_join_def DIRNAME_def)
  from C3_timeout_leaves_by_exception [OF missing(1) no_lock, of 600]
    C3_timeout_leaves_by_exception [OF missing(2) no_lock, of 600]
  show ?thesis by (simp add: os_path_exists_def dir)
qed

subsection \<open>Training driver\<close>

lemma clear_checkpoint_unbound:
  "load_global train_globals ''clear_checkpoint'' = Inl (NameError ''clear_checkpoint'')"
  by (simp add: load_global_def train_globals_def)

lemma seed_keeps_rng: "rng_state (seed sd w) = rng_state w"
  by (simp add: seed_def)

text \<open>
  C2, as stated, fails: with clock readings one second apart and an empty store, the
  start handler sets both counters to zero but leaves the store empty, and the store is
  still empty after the first epoch has run.
\<close>

theorem C2_no_initial_checkpoint_counterexample:
  "store (fresh_trainer 0) = None \<and>
   epoch (engine (trainer_load_checkpoint (sample_env quick_clock) (fresh_trainer 0))) = 0 \<and>
   iteration (engine (trainer_load_checkpoint (sample_env quick_clock) (fresh_trainer 0))) = 0 \<and>
   store (trainer_load_checkpoint (sample_env quick_clock) (fresh_trainer 0)) = None \<and>
   store (trainer_run (sample_env quick_clock) 1 1 (fresh_trainer 0)) = None"
  by (simp add: trainer_run_def run_epochs.simps one_epoch_def trainer_load_checkpoint_def
      trainer_save_checkpoint_def trainer_seeding_def run_once_on_dataset_def utcnow_def
      load_checkpoint_def save_checkpoint_def sample_env_def quick_clock_def fresh_trainer_def
      total_seconds_def TIME_BUFFER_def Let_def seed_def sample_world_def)

text \<open>
  C2, amended. When the driver starts and the store holds no checkpoint, the start
  handler sets the epoch and iteration counters to zero and appends the statistics of
  epoch 0 to the history; it persists an initial checkpoint (epoch 0, iteration 0, that
  history) exactly when more than \<open>TIME_BUFFER\<close> seconds lie between the handler's
  first clock reading and the reading taken after the initial evaluation, and otherwise
  leaves the store empty. The handler runs before the loop over the epochs.
\<close>

theorem C2_start_without_checkpoint:
  assumes "store t = None"
  shows "epoch (engine (trainer_load_checkpoint ev t)) = 0 \<and>
         iteration (engine (trainer_load_checkpoint ev t)) = 0 \<and>
         all_stats (trainer_load_checkpoint ev t) = all_stats t @ [epoch_stats ev 0] \<and>
         store (trainer_load_checkpoint ev t) =
           (if total_seconds (utcnow_at ev (Suc (clock_reads t)) - utcnow_at ev (clock_reads t))
                 > of_int TIME_BUFFER
            then Some \<lparr>ck_epoch = 0, ck_iteration = 0,
                        ck_all_stats = all_stats t @ [epoch_stats ev 0]\<rparr>
            else None) \<and>
         trainer_run ev seeds_sampler max_epochs t =
           run_epochs ev seeds_sampler max_epochs
             (trainer_load_checkpoint ev
                (t\<lparr>engine := \<lparr>epoch = 0, iteration = 0, output_value = 0,
                                last_checkpoint = 0\<rparr>\<rparr>))"
  using assms
  by (simp add: trainer_run_def trainer_load_checkpoint_def trainer_save_checkpoint_def
      utcnow_def load_checkpoint_def save_checkpoint_def Let_def)

theorem C2_start_without_checkpoint_witness:
  "store (fresh_trainer 0) = None \<and>
   epoch (engine (trainer_load_checkpoint (sample_env slow_clock) (fresh_trainer 0))) = 0 \<and>
   iteration (engine (trainer_load_checkpoint (sample_env slow_clock) (fresh_trainer 0))) = 0 \<and>
   store (trainer_load_checkpoint (sample_env slow_clock) (fresh_trainer 0)) =
     Some \<lparr>ck_epoch = 0, ck_iteration = 0,
            ck_all_stats = [epoch_stats (sample_env slow_clock) 0]\<rparr>"
proof -
  have empty: "store (fresh_trainer 0) = None" by (simp add: fresh_trainer_def)
  have gate: "total_seconds (utcnow_at (sample_env slow_clock) (Suc (clock_reads (fresh_trainer 0)))
      - utcnow_at (sample_env slow_clock) (clock_reads (fresh_trainer 0))) > of_int TIME_BUFFER"
    by (simp add: sample_env_def slow_clock_def fresh_trainer_def total_seconds_def
        TIME_BUFFER_def)
  have "all_stats (fresh_trainer 0) = []" by (simp add: fresh_trainer_def)
  with C2_start_without_checkpoint [OF empty, of "sample_env slow_clock"] gate empty
  show ?thesis by simp
qed

text \<open>
  C4. The claim is that after the last epoch \<open>train\<close> deletes the stored checkpoint
  and returns the metric history. The code does not get there: the name
  \<open>clear_checkpoint\<close> is bound nowhere in the module, so once the experiment is built
  and the loop has finished, \<open>train\<close> raises \<open>NameError\<close>; the store is left as the
  loop left it and no history is returned.
\<close>

theorem C4_train_raises_instead_of_clearing:
  assumes "build_experiment optimizer config w = Inr (ex, w1)"
  shows "train ev optimizer config max_epochs stored w =
           (Inl (NameError ''clear_checkpoint''),
            store (trainer_run ev (exp_seeds_sampler ex) max_epochs
                     \<lparr>engine = \<lparr>epoch = 0, iteration = 0, output_value = 0,
                                  last_checkpoint = 0\<rparr>,
                        all_stats = [], store = stored, lr_sched = exp_lr_scheduler ex,
                        torch = w1, model_training = True, clock_reads = 0,
                        sampling_drawn_from = []\<rparr>))"
  using assms by (simp add: train_def clear_checkpoint_unbound Let_def)

theorem C4_train_raises_instead_of_clearing_witness:
  "train (sample_env slow_clock) [1] sample_config 1 None (sample_world 0) =
     (Inl (NameError ''clear_checkpoint''),
      Some \<lparr>ck_epoch = 1, ck_iteration = 10,
             ck_all_stats = [epoch_stats (sample_env slow_clock) 0,
                             epoch_stats (sample_env slow_clock) 1]\<rparr>)"
proof -
  have built: "build_experiment [1] sample_config (sample_world 0) =
      Inr (\<lparr>exp_optimizer = [1], exp_lr_scheduler = None, exp_seeds_model = 1,
             exp_seeds_sampler = 1\<rparr>,
           \<lparr>cuda_available = True, cudnn_benchmark = True, cudnn_deterministic = False,
              rng_state = 0\<rparr>)"
    by (simp add: build_experiment_def build_lr_scheduler_def sample_config_def
        sample_world_def seed_def Let_def)
  show ?thesis
    unfolding C4_train_raises_instead_of_clearing [OF built]
    by (simp add: trainer_run_def run_epochs.simps one_epoch_def trainer_load_checkpoint_def
        trainer_save_checkpoint_def trainer_seeding_def run_once_on_dataset_def utcnow_def
        load_checkpoint_def save_checkpoint_def sample_env_def slow_clock_def
        total_seconds_def TIME_BUFFER_def Let_def seed_def)
qed

text \<open>
  C5. The claim is that at each epoch start the sampling randomness is re-seeded to
  \<open>sampler_seed + e\<close>. The code computes that value and passes it to \<open>seed\<close>, but
  \<open>seed\<close> sets no generator: after the epoch-start handler the generator state is what
  it was before, whatever the seed and the epoch, and the epoch's sampling order is
  drawn from that state.
\<close>

theorem C5_epoch_start_does_not_reseed:
  "rng_state (torch (trainer_seeding seeds_sampler t)) = rng_state (torch t) \<and>
   sampling_drawn_from (run_once_on_dataset ev (trainer_seeding seeds_sampler t)) =
     sampling_drawn_from t @ [rng_state (torch t)]"
  by (simp add: trainer_seeding_def run_once_on_dataset_def seed_keeps_rng Let_def
      split: option.split)

theorem C5_epoch_start_does_not_reseed_witness:
  "rng_state (torch (trainer_seeding 1 (fresh_trainer 3))) = 3 \<and>
   rng_state (torch (trainer_seeding 1 (fresh_trainer 4))) = 4 \<and>
   sampling_drawn_from
       (run_once_on_dataset (sample_env quick_clock) (trainer_seeding 1 (fresh_trainer 3))) \<noteq>
     sampling_drawn_from
       (run_once_on_dataset (sample_env quick_clock) (trainer_seeding 1 (fresh_trainer 4)))"
  using C5_epoch_start_does_not_reseed [of 1 "fresh_trainer 3" "sample_env quick_clock"]
    C5_epoch_start_does_not_reseed [of 1 "fresh_trainer 4" "sample_env quick_clock"]
  by (simp add: fresh_trainer_def sample_world_def)

subsection \<open>Batch submission script\<close>

lemma orion_formats:
  "py_format orion_template []
     [(''experiment'', e), (''dataset'', d), (''model'', m), (''version'', v)] =
   Inr (''orion hunt -n '' @ e @ '';'' @ d @ '';'' @ m @ '';'' @ v @
        '' --config /configs/orion.core/orion_config.yaml'')"
  by (simp add: py_format_def orion_template_def)

lemma kleio_formats:
  "py_format kleio_template []
     [(''experiment'', e), (''dataset'', d), (''model'', m), (''version'', v)] =
   Inr (''kleio run --allow-host-changes --config /config/kleio.core/kleio_config.yaml --tags ''
        @ e @ '';'' @ d @ '';'' @ m @ '';'' @ v)"
  by (simp add: py_format_def kleio_template_def)

lemma data_wrapper_level_unbound:
  "load_global save_globals ''data_wrapper_level'' = Inl (NameError ''data_wrapper_level'')"
  by (simp add: load_global_def save_globals_def)

lemma commandline_template_needs_orion:
  "py_format commandline_template [] [(''kleio'', k), (''script'', s)] = Inl (KeyError ''orion'')"
  by (simp add: py_format_def commandline_template_def)

lemma main_loop_raises:
  "instances \<noteq> [] \<Longrightarrow> main_loop ver instances = Inl (NameError ''data_wrapper_level'')"
proof (cases instances)
  case Nil
  assume "instances \<noteq> []"
  with Nil show ?thesis by simp
next
  case (Cons i rest)
  obtain dataset model file_path where i: "i = (dataset, model, file_path)"
    by (cases i)
  show ?thesis
    unfolding Cons i
    by (simp add: orion_formats kleio_formats data_wrapper_level_unbound)
qed

text \<open>
  C6. The claim is that with \<open>--print-only\<close> the script produces, for every selected
  configuration, the three sub-commands joined by single spaces and starts no
  subprocess. The code does not produce any command line: as soon as one configuration
  is selected, building its script sub-command reads the unbound name
  \<open>data_wrapper_level\<close> and \<open>main\<close> raises \<open>NameError\<close>; nothing is printed and
  nothing is started.
\<close>

theorem C6_main_raises_on_first_instance:
  assumes "get_instances tree (configs a) (datasets a) (models a) ''0.benchmark'' \<noteq> []"
  shows "main tree a l = (Some (NameError ''data_wrapper_level''), l)"
  using main_loop_raises [OF assms] by (simp add: main_def)

theorem C6_main_raises_on_first_instance_witness:
  "main [(''cifar10'', True, [''lenet.yaml''])]
     \<lparr>configs = ''configs'', version = ''v1'', datasets = None, models = None,
        print_only = True\<rparr>
     \<lparr>printed = [], spawned = []\<rparr> =
   (Some (NameError ''data_wrapper_level''), \<lparr>printed = [], spawned = []\<rparr>)"
proof -
  let ?a = "\<lparr>configs = ''configs'', version = ''v1'', datasets = None, models = None,
        print_only = True\<rparr>"
  have "get_instances [(''cifar10'', True, [''lenet.yaml''])] (configs ?a) (datasets ?a)
      (models ?a) ''0.benchmark'' =
      [(''cifar10'', ''lenet'', ''configs/0.benchmark/cifar10/lenet.yaml'')]"
    by (simp add: get_instances_def possible_models_def selected_def split_last_def
        os_path_join_def)
  then have "get_instances [(''cifar10'', True, [''lenet.yaml''])] (configs ?a) (datasets ?a)
      (models ?a) ''0.benchmark'' \<noteq> []"
    by simp
  from C6_main_raises_on_first_instance [OF this] show ?thesis .
qed


end
